theory Spec2Isabelle
  imports Complex_Main "HOL-Library.Multiset"
begin

section \<open>Python values\<close>

text \<open>
  Exceptions of the Python source are values. A function that may raise returns
  \<open>error + 'a\<close>, with \<open>Inl\<close> for the exception.
\<close>

datatype error =
  ValueError | TypeError | ZeroDivisionError | IndexError | AttributeError | DatabaseError

text \<open>
  \<open>str.upper()\<close> on the ASCII letters, which is all that ticker symbols and the
  instructions \<open>BUY\<close>/\<open>SELL\<close> contain.
\<close>

definition upper_char :: "char \<Rightarrow> char" where
  "upper_char c =
     (let n = (of_char c :: int) in if 97 \<le> n \<and> n \<le> 122 then char_of (n - 32) else c)"

definition upper :: "string \<Rightarrow> string" where
  "upper s = map upper_char s"

section \<open>Floats and \<open>round_price\<close> (account/acc.py)\<close>

text \<open>
  A Python float is an IEEE binary64 number. A finite float is modelled by the rational
  number it denotes; \<open>double_of\<close> rounds a rational to the nearest float (53 bits of
  significand, ties to even, gradual underflow below \<open>2^-1022\<close>). The literal
  \<open>0.12345\<close> of the source language is the float \<open>double_of (12345 / 100000)\<close>.

  The built-in \<open>round(x, n)\<close> converts the exact value of \<open>x\<close> to the correctly rounded
  decimal with \<open>n\<close> digits after the point (ties to even) and reads that decimal back as
  a float.
\<close>

function bit_length :: "int \<Rightarrow> int" where
  "bit_length n = (if n \<le> 0 then 0 else 1 + bit_length (n div 2))"
  by pat_completeness auto
termination
  by (relation "measure nat") auto

declare bit_length.simps [simp del]

definition round_half_even :: "rat \<Rightarrow> int" where
  "round_half_even x =
     (let f = \<lfloor>x\<rfloor>; d = x - of_int f
      in if d < 1 / 2 then f else if 1 / 2 < d then f + 1 else if even f then f else f + 1)"

definition pow2 :: "int \<Rightarrow> rat" where
  "pow2 e = (if 0 \<le> e then 2 ^ nat e else 1 / 2 ^ nat (- e))"

definition ilog2 :: "rat \<Rightarrow> int" where
  "ilog2 x =
     (let (p, q) = quotient_of x; e = bit_length p - bit_length q
      in if pow2 e \<le> x then e else e - 1)"

definition double_of :: "rat \<Rightarrow> rat" where
  "double_of x =
     (if x = 0 then 0
      else let e = max (ilog2 \<bar>x\<bar>) (- 1022); u = pow2 (e - 52)
           in of_int (round_half_even (x / u)) * u)"

definition py_round :: "rat \<Rightarrow> nat \<Rightarrow> rat" where
  "py_round x ndigits =
     double_of (of_int (round_half_even (x * 10 ^ ndigits)) / 10 ^ ndigits)"

definition round_price :: "rat \<Rightarrow> rat" where
  "round_price price = (if price < 1 then py_round price 4 else py_round price 2)"

section \<open>Bar frames\<close>

text \<open>
  A pandas DataFrame of bars: the kind of its index, the names of its columns, and its
  rows in storage order. A row is an index entry with the cells of the six bar columns;
  a cell is \<open>None\<close> where pandas holds NaN or None. Cells of a column that the frame does
  not list are never read. An index entry is a wall-clock timestamp counted in minutes
  (the chart bars are minute bars; daylight-saving shifts are not modelled).
\<close>

datatype index_kind = DatetimeIndex | OtherIndex

record bar =
  symbol_c :: "string option"
  open_c :: "rat option"
  high_c :: "rat option"
  low_c :: "rat option"
  close_c :: "rat option"
  volume_c :: "int option"

type_synonym row = "int \<times> bar"

record frame =
  index_kind :: index_kind
  columns :: "string list"
  rows :: "row list"

definition required_cols :: "string list" where
  "required_cols = [''symbol'', ''open'', ''high'', ''low'', ''close'', ''volume'']"

text \<open>\<open>pd.DataFrame(columns=[...])\<close>: no rows, a default (non-datetime) index.\<close>

definition empty_frame :: frame where
  "empty_frame = \<lparr>index_kind = OtherIndex, columns = required_cols, rows = []\<rparr>"

text \<open>\<open>df.empty\<close>: some axis has length zero.\<close>

definition is_empty :: "frame \<Rightarrow> bool" where
  "is_empty df = (rows df = [] \<or> columns df = [])"

text \<open>\<open>df.sort_index()\<close>, taken as a stable sort on the index.\<close>

definition sort_index :: "frame \<Rightarrow> frame" where
  "sort_index df = df\<lparr>rows := sort_key fst (rows df)\<rparr>"

section \<open>Resampling (pandas)\<close>

text \<open>
  \<open>series.resample("Tmin")\<close> with the defaults of pandas: bins of \<open>T\<close> minutes, closed
  and labelled on the left, anchored at midnight of the first timestamp's day. The
  series is put in index order first. Every bin from the one holding the first
  timestamp to the one holding the last gets an output row, an empty bin too.
  The bins are filled in one pass over the ordered rows.
\<close>

definition day_start :: "int \<Rightarrow> int" where
  "day_start t = t - t mod 1440"

definition bucket_start :: "int \<Rightarrow> int \<Rightarrow> int \<Rightarrow> int" where
  "bucket_start origin T t = origin + ((t - origin) div T) * T"

fun generate_bins :: "int \<Rightarrow> int \<Rightarrow> nat \<Rightarrow> row list \<Rightarrow> (int \<times> row list) list" where
  "generate_bins T lbl 0 rs = []"
| "generate_bins T lbl (Suc n) rs =
     (lbl, takeWhile (\<lambda>r. fst r < lbl + T) rs)
       # generate_bins T (lbl + T) n (dropWhile (\<lambda>r. fst r < lbl + T) rs)"

definition resample :: "row list \<Rightarrow> int \<Rightarrow> (int \<times> row list) list" where
  "resample rs T =
     (case sort_key fst rs of
        [] \<Rightarrow> []
      | r # rs' \<Rightarrow>
          (let ordered = r # rs';
               origin = day_start (fst r);
               first_label = bucket_start origin T (fst r);
               last_label = bucket_start origin T (fst (last ordered))
           in generate_bins T first_label (nat ((last_label - first_label) div T) + 1) ordered))"

text \<open>The reductions \<open>first\<close>, \<open>last\<close>, \<open>max\<close>, \<open>min\<close> and \<open>sum\<close> skip null cells.\<close>

fun agg_first :: "'a option list \<Rightarrow> 'a option" where
  "agg_first [] = None"
| "agg_first (Some x # xs) = Some x"
| "agg_first (None # xs) = agg_first xs"

definition agg_last :: "'a option list \<Rightarrow> 'a option" where
  "agg_last xs = fold (\<lambda>c acc. case c of None \<Rightarrow> acc | Some x \<Rightarrow> Some x) xs None"

definition agg_max :: "('a::linorder) option list \<Rightarrow> 'a option" where
  "agg_max xs =
     fold (\<lambda>c acc. case c of None \<Rightarrow> acc
                   | Some x \<Rightarrow> (case acc of None \<Rightarrow> Some x | Some m \<Rightarrow> Some (max m x)))
       xs None"

definition agg_min :: "('a::linorder) option list \<Rightarrow> 'a option" where
  "agg_min xs =
     fold (\<lambda>c acc. case c of None \<Rightarrow> acc
                   | Some x \<Rightarrow> (case acc of None \<Rightarrow> Some x | Some m \<Rightarrow> Some (min m x)))
       xs None"

definition agg_sum :: "int option list \<Rightarrow> int" where
  "agg_sum xs = fold (\<lambda>c acc. case c of None \<Rightarrow> acc | Some x \<Rightarrow> acc + x) xs 0"

definition ohlcv :: "row list \<Rightarrow> bar" where
  "ohlcv grp =
     \<lparr>symbol_c = agg_first (map (symbol_c \<circ> snd) grp),
      open_c = agg_first (map (open_c \<circ> snd) grp),
      high_c = agg_max (map (high_c \<circ> snd) grp),
      low_c = agg_min (map (low_c \<circ> snd) grp),
      close_c = agg_last (map (close_c \<circ> snd) grp),
      volume_c = Some (agg_sum (map (volume_c \<circ> snd) grp))\<rparr>"

text \<open>\<open>out.dropna(subset=["open", "high", "low", "close"])\<close>\<close>

definition dropna :: "row list \<Rightarrow> row list" where
  "dropna rs =
     filter (\<lambda>r. open_c (snd r) \<noteq> None \<and> high_c (snd r) \<noteq> None
                 \<and> low_c (snd r) \<noteq> None \<and> close_c (snd r) \<noteq> None) rs"

section \<open>\<open>aggregate_time_frame\<close> (tradeBot/functions/aggregateTimeFrames.py)\<close>

text \<open>
  The argument types of the source (\<open>df: pd.DataFrame\<close>, \<open>aggregation: int\<close>) are the
  types of the model, so the two \<open>isinstance\<close> checks and the \<open>None\<close> check always pass.
  The checks are made in the order of the source.
\<close>

definition aggregate_time_frame :: "frame \<Rightarrow> int \<Rightarrow> error + frame" where
  "aggregate_time_frame df aggregation =
     (if is_empty df then Inr empty_frame
      else if index_kind df \<noteq> DatetimeIndex then Inl ValueError
      else if aggregation \<le> 0 then Inl ValueError
      else if int (length (rows df)) < aggregation then Inr empty_frame
      else if filter (\<lambda>col. col \<notin> set (columns df)) required_cols \<noteq> [] then Inl ValueError
      else
        (let out = dropna (map (\<lambda>(lbl, grp). (lbl, ohlcv grp)) (resample (rows df) aggregation))
         in if out = [] then Inr empty_frame
            else Inr \<lparr>index_kind = DatetimeIndex, columns = required_cols, rows = out\<rparr>))"

text \<open>
  The frame of tests/unit/test\_aggregateTimeFrames.py: \<open>minutes\<close> one-minute bars from
  2025-10-27 09:30, bar \<open>i\<close> with open \<open>i\<close>, high \<open>i + 1\<close>, low \<open>i\<close>, close \<open>i + 1\<close> and
  volume 100.
\<close>

definition sample_start :: int where
  "sample_start = 20388 * 1440 + 570"

definition sample_bar :: "int \<Rightarrow> row" where
  "sample_bar i =
     (sample_start + i,
      \<lparr>symbol_c = Some ''test'', open_c = Some (of_int i), high_c = Some (of_int (i + 1)),
       low_c = Some (of_int i), close_c = Some (of_int (i + 1)), volume_c = Some 100\<rparr>)"

definition create_sample_df :: "int \<Rightarrow> frame" where
  "create_sample_df minutes =
     \<lparr>index_kind = DatetimeIndex, columns = required_cols,
      rows = map sample_bar [0 .. minutes - 1]\<rparr>"

text \<open>The raw bars of the bucket labelled \<open>ts\<close>, in time order.\<close>

definition bucket_rows :: "frame \<Rightarrow> int \<Rightarrow> int \<Rightarrow> row list" where
  "bucket_rows df T ts = filter (\<lambda>r. ts \<le> fst r \<and> fst r < ts + T) (sort_key fst (rows df))"

text \<open>The non-null cells of a column, in order.\<close>

definition notna :: "'a option list \<Rightarrow> 'a list" where
  "notna xs = concat (map (\<lambda>c. case c of None \<Rightarrow> [] | Some x \<Rightarrow> [x]) xs)"


text \<open>The same five bars as \<open>create_sample_df 5\<close>, the first two exchanged.\<close>

definition unordered_sample_df :: frame where
  "unordered_sample_df =
     \<lparr>index_kind = DatetimeIndex, columns = required_cols,
      rows = [sample_bar 1, sample_bar 0, sample_bar 2, sample_bar 3, sample_bar 4]\<rparr>"

section \<open>Effects\<close>

text \<open>
  What a call does besides returning is recorded as a trace of events, in the order of
  the source: the lines written to the logger (level and message, the message cut down
  to its fixed part and the value it names), the HTTP requests sent to the brokerage,
  the calls of \<open>aggregate_time_frame\<close> and the calls of a cached strategy function.
\<close>

datatype level = DEBUG | INFO | WARNING | ERROR | CRITICAL

text \<open>The JSON body of an order request, \<open>order_data\<close> in \<open>send_orders\<close>.\<close>

record order_data =
  orderType :: string
  leg_instruction :: string
  leg_quantity :: rat
  leg_symbol :: string
  order_price :: "rat option"
  cancel_minutes :: "int option"

datatype event =
    Log level string
  | Post order_data
  | Get string
  | Delete string
  | Aggregate frame int
  | Evaluate string frame

text \<open>
  The outcome of one HTTP request: an exception of the \<open>requests\<close> library, or a
  response with its status code and the part of it that the caller reads.
\<close>

datatype 'a http = Timeout | ConnectionError | OtherException | Response int 'a

text \<open>\<open>resp.raise_for_status()\<close> raises \<open>HTTPError\<close> on a 4xx or 5xx status.\<close>

definition raises_for_status :: "int \<Rightarrow> bool" where
  "raises_for_status code = (400 \<le> code \<and> code < 600)"

text \<open>
  The order document of the brokerage, as far as the code reads it. The document is
  the empty dict when it has no key at all.
\<close>

record order =
  status :: "string option"
  filledQuantity :: "rat option"
  other_keys :: bool

datatype body = InvalidJson | NotADict | Dict order

definition not_order :: "order \<Rightarrow> bool" where
  "not_order d = (status d = None \<and> filledQuantity d = None \<and> \<not> other_keys d)"

datatype db_op = Insert | Select | DeleteRows

text \<open>
  The world outside the process during one call: the answer of the brokerage to each
  request, and whether a statement on the database fails.
\<close>

record env =
  http_post :: "order_data \<Rightarrow> string option http"
  http_get :: "string \<Rightarrow> body http"
  http_delete :: "string \<Rightarrow> unit http"
  db_fails :: "db_op \<Rightarrow> bool"

section \<open>The table \<open>active_positions\<close> (backend/queries/active\_positions.py)\<close>

record position =
  pos_strategy_id :: int
  pos_order_id :: string
  pos_quantity :: rat
  pos_entry_price :: rat

definition add_active_position ::
  "env \<Rightarrow> position list \<Rightarrow> int \<Rightarrow> string \<Rightarrow> rat \<Rightarrow> rat \<Rightarrow> error + position list" where
  "add_active_position w table strategy_id order_id quantity entry_price =
     (if db_fails w Insert then Inl DatabaseError
      else Inr (table @ [\<lparr>pos_strategy_id = strategy_id, pos_order_id = order_id,
                          pos_quantity = quantity, pos_entry_price = entry_price\<rparr>]))"

definition get_order_id_list :: "env \<Rightarrow> position list \<Rightarrow> int \<Rightarrow> error + string list" where
  "get_order_id_list w table strategy_id =
     (if db_fails w Select then Inl DatabaseError
      else Inr (map pos_order_id (filter (\<lambda>p. pos_strategy_id p = strategy_id) table)))"

definition delete_active_positions :: "env \<Rightarrow> position list \<Rightarrow> int \<Rightarrow> error + position list" where
  "delete_active_positions w table strategy_id =
     (if db_fails w DeleteRows then Inl DatabaseError
      else Inr (filter (\<lambda>p. pos_strategy_id p \<noteq> strategy_id) table))"

section \<open>Orders (account/acc.py)\<close>

definition get_orders :: "env \<Rightarrow> string \<Rightarrow> order option \<times> event list" where
  "get_orders w order_id =
     (case http_get w order_id of
        Timeout \<Rightarrow> (None, [Get order_id, Log ERROR ''Request timed out while fetching order''])
      | ConnectionError \<Rightarrow>
          (None, [Get order_id, Log ERROR ''Connection error while fetching order''])
      | OtherException \<Rightarrow> (None, [Get order_id, Log ERROR ''Unexpected error fetching order''])
      | Response code b \<Rightarrow>
          (if raises_for_status code
           then (None, [Get order_id, Log ERROR ''HTTP error fetching order''])
           else case b of
                  InvalidJson \<Rightarrow> (None, [Get order_id, Log ERROR ''Invalid JSON for order''])
                | NotADict \<Rightarrow>
                    (None, [Get order_id, Log WARNING ''Unexpected response type for order''])
                | Dict d \<Rightarrow> (Some d, [Get order_id])))"

definition delete_orders :: "env \<Rightarrow> string \<Rightarrow> bool \<times> event list" where
  "delete_orders w order_id =
     (case http_delete w order_id of
        Timeout \<Rightarrow> (False, [Delete order_id, Log ERROR ''Request to cancel order timed out''])
      | ConnectionError \<Rightarrow>
          (False, [Delete order_id, Log ERROR ''Connection error cancelling order''])
      | OtherException \<Rightarrow>
          (False, [Delete order_id, Log ERROR ''Unexpected error cancelling order''])
      | Response code u \<Rightarrow>
          (if code = 200 \<or> code = 204
           then (True, [Delete order_id, Log INFO ''Order deleted successfully''])
           else (False, [Delete order_id, Log WARNING ''Failed to delete order''])))"

text \<open>\<open>location.split("/")[-1]\<close>\<close>

definition last_segment :: "string \<Rightarrow> string" where
  "last_segment s = rev (takeWhile (\<lambda>c. c \<noteq> CHR ''/'') (rev s))"

text \<open>
  The request body that \<open>send_orders\<close> builds. The price is rounded first; a rounded
  price of zero makes a market order; the price is sent only when positive and the
  cancel time only when \<open>exp_min\<close> is positive.
\<close>

definition build_order_data :: "rat \<Rightarrow> int \<Rightarrow> rat \<Rightarrow> string \<Rightarrow> string \<Rightarrow> order_data" where
  "build_order_data quantity exp_min price symbol instruction =
     (let price = round_price price
      in \<lparr>orderType = (if price = 0 then ''MARKET'' else ''LIMIT''),
          leg_instruction = upper instruction,
          leg_quantity = quantity,
          leg_symbol = symbol,
          order_price = (if 0 < price then Some price else None),
          cancel_minutes = (if 0 < exp_min then Some exp_min else None)\<rparr>)"

text \<open>
  \<open>send_orders\<close>: the two argument checks raise before any request; every failure
  of the request itself is caught and gives \<open>None\<close>. An absent symbol (\<open>None\<close>) and the
  empty symbol are both the empty string here.
\<close>

definition send_orders ::
  "env \<Rightarrow> rat \<Rightarrow> int \<Rightarrow> rat \<Rightarrow> string \<Rightarrow> string \<Rightarrow> error + (string option \<times> event list)" where
  "send_orders w quantity exp_min price symbol instruction =
     (if symbol = [] then Inl ValueError
      else if quantity \<le> 0 then Inl ValueError
      else
        (let order_data = build_order_data quantity exp_min price symbol instruction
         in case http_post w order_data of
              Timeout \<Rightarrow> Inr (None, [Post order_data, Log ERROR ''Order request timed out.''])
            | ConnectionError \<Rightarrow>
                Inr (None, [Post order_data, Log ERROR ''Connection error while sending order.''])
            | OtherException \<Rightarrow>
                Inr (None, [Post order_data, Log ERROR ''Unexpected error sending order''])
            | Response code location \<Rightarrow>
                (if raises_for_status code
                 then Inr (None, [Post order_data, Log ERROR ''HTTP error''])
                 else if code = 201
                 then (case location of
                         None \<Rightarrow> Inr (None, [Post order_data])
                       | Some l \<Rightarrow>
                           Inr (if l = [] then None else Some (last_segment l),
                                [Post order_data]))
                 else Inr (None, [Post order_data, Log ERROR ''Unexpected response'']))))"

text \<open>
  The loop of the SELL branch over the order ids of the strategy. An exception raised
  in the loop ends it; the events up to that point have happened.
\<close>

fun sell_loop :: "env \<Rightarrow> rat \<Rightarrow> string \<Rightarrow> string list \<Rightarrow> event list \<times> error option" where
  "sell_loop w price symbol [] = ([], None)"
| "sell_loop w price symbol (order_id # ids) =
     (case get_orders w order_id of
        (None, ev) \<Rightarrow>
          (let (ev', err) = sell_loop w price symbol ids in (ev @ ev', err))
      | (Some d, ev) \<Rightarrow>
          (if not_order d
           then (let (ev', err) = sell_loop w price symbol ids in (ev @ ev', err))
           else if status d = Some ''FILLED''
           then
             (let filled_qty = (case filledQuantity d of None \<Rightarrow> 0 | Some q \<Rightarrow> q)
              in if 0 < filled_qty
                 then (case send_orders w filled_qty 1440 price symbol ''SELL'' of
                         Inl e \<Rightarrow> (ev, Some e)
                       | Inr (r, ev1) \<Rightarrow>
                           (let (ev', err) = sell_loop w price symbol ids
                            in (ev @ ev1 @ ev', err)))
                 else (let (ev', err) = sell_loop w price symbol ids in (ev @ ev', err)))
           else
             (let (r, ev1) = delete_orders w order_id;
                  (ev', err) = sell_loop w price symbol ids
              in (ev @ ev1 @ ev', err))))"

text \<open>
  \<open>send_strategy_orders\<close> returns its result, the table afterwards and the trace. The
  SELL branch runs inside one \<open>try\<close>: an exception from the listing of the order ids,
  from the loop or from the final deletion is logged, and the function still returns
  \<open>"SELL completed"\<close>.
\<close>

definition send_strategy_orders ::
  "env \<Rightarrow> position list \<Rightarrow> rat \<Rightarrow> int \<Rightarrow> string \<Rightarrow> int \<Rightarrow> rat \<Rightarrow> string
     \<Rightarrow> error + (string option \<times> position list \<times> event list)" where
  "send_strategy_orders w table quantity exp_min symbol strategy_id price instruction =
     (let price = round_price price; instruction = upper instruction
      in if instruction \<noteq> ''BUY'' \<and> instruction \<noteq> ''SELL'' then Inl ValueError
         else if instruction = ''BUY''
         then
           (case send_orders w quantity exp_min price symbol ''BUY'' of
              Inl e \<Rightarrow> Inl e
            | Inr (None, ev) \<Rightarrow> Inr (None, table, ev)
            | Inr (Some order_id, ev) \<Rightarrow>
                (if order_id = [] then Inr (None, table, ev)
                 else case add_active_position w table strategy_id order_id quantity price of
                        Inl e \<Rightarrow>
                          Inr (Some ''BUY completed'', table,
                               ev @ [Log ERROR ''Error inserting order to DB'',
                                     Log INFO ''Sent buy order''])
                      | Inr table' \<Rightarrow>
                          Inr (Some ''BUY completed'', table', ev @ [Log INFO ''Sent buy order''])))
         else
           (case get_order_id_list w table strategy_id of
              Inl e \<Rightarrow>
                Inr (Some ''SELL completed'', table,
                     [Log ERROR ''Error processing SELL for strategy'',
                      Log INFO ''Sent sell order''])
            | Inr order_id_list \<Rightarrow>
                (case sell_loop w price symbol order_id_list of
                   (ev, Some e) \<Rightarrow>
                     Inr (Some ''SELL completed'', table,
                          ev @ [Log ERROR ''Error processing SELL for strategy'',
                                Log INFO ''Sent sell order''])
                 | (ev, None) \<Rightarrow>
                     (case delete_active_positions w table strategy_id of
                        Inl e \<Rightarrow>
                          Inr (Some ''SELL completed'', table,
                               ev @ [Log ERROR ''Error processing SELL for strategy'',
                                     Log INFO ''Sent sell order''])
                      | Inr table' \<Rightarrow>
                          Inr (Some ''SELL completed'', table',
                               ev @ [Log INFO ''Sent sell order''])))))"

text \<open>Kinds of events, to read a trace.\<close>

definition is_post :: "event \<Rightarrow> bool" where
  "is_post e = (case e of Post d \<Rightarrow> True | _ \<Rightarrow> False)"

definition is_log :: "event \<Rightarrow> bool" where
  "is_log e = (case e of Log l m \<Rightarrow> True | _ \<Rightarrow> False)"

definition is_error_log :: "event \<Rightarrow> bool" where
  "is_error_log e = (case e of Log l m \<Rightarrow> l = ERROR | _ \<Rightarrow> False)"

text \<open>
  Three brokerages to run the functions against: one that accepts every order and
  reports every order as filled with quantity 1, one that answers every order with 201
  but gives no \<open>Location\<close> header and reports every order as filled, and one whose
  every request times out. The database works in all three.
\<close>

definition broker_accepting :: env where
  "broker_accepting =
     \<lparr>http_post = (\<lambda>d. Response 201 (Some ''/trader/v1/accounts/1/orders/12345'')),
      http_get =
        (\<lambda>i. Response 200
                (Dict \<lparr>status = Some ''FILLED'', filledQuantity = Some 1, other_keys = True\<rparr>)),
      http_delete = (\<lambda>i. Response 200 ()),
      db_fails = (\<lambda>op. False)\<rparr>"

definition broker_no_location :: env where
  "broker_no_location = broker_accepting\<lparr>http_post := (\<lambda>d. Response 201 None)\<rparr>"

definition broker_down :: env where
  "broker_down =
     \<lparr>http_post = (\<lambda>d. Timeout), http_get = (\<lambda>i. Timeout), http_delete = (\<lambda>i. Timeout),
      db_fails = (\<lambda>op. False)\<rparr>"

section \<open>The stream (tradeBot/get\_data/schwab\_automatic\_stream.py)\<close>

subsection \<open>\<open>its_time\<close>\<close>

text \<open>The remainder by zero raises.\<close>

definition its_time :: "int \<Rightarrow> int \<Rightarrow> error + bool" where
  "its_time minute time_frame =
     (if time_frame = 0 then Inl ZeroDivisionError else Inr (minute mod time_frame = 0))"

subsection \<open>State\<close>

text \<open>
  An entry of the global \<open>df_dict\<close>, which maps a strategy id to the buffer of raw bars,
  the latch \<open>itsTime\<close> and the configuration of the instance. The dict is a list of
  pairs in insertion order.
\<close>

record strategy_data =
  df :: frame
  itsTime :: bool
  name :: string
  symbol :: string
  order_type :: string
  time_frame :: int
  extended_hours :: bool

fun dict_set :: "'k \<Rightarrow> 'v \<Rightarrow> ('k \<times> 'v) list \<Rightarrow> ('k \<times> 'v) list" where
  "dict_set k v [] = [(k, v)]"
| "dict_set k v ((k', v') # kvs) =
     (if k = k' then (k, v) # kvs else (k', v') # dict_set k v kvs)"

text \<open>
  A strategy function takes a frame of candles and returns it with the columns
  \<open>signal\<close> and \<open>quantity\<close> added, or raises. \<open>STRATEGY_CACHE\<close> maps a strategy name to
  its function.
\<close>

record signal_row =
  candle :: bar
  signal :: "string option"
  quantity :: "rat option"

type_synonym strategy_fn = "frame \<Rightarrow> error + signal_row list"

type_synonym strategy_cache = "string \<rightharpoonup> strategy_fn"

text \<open>One entry of the \<open>content\<close> list of a chart message.\<close>

record item =
  key :: "string option"
  CHART_TIME_MILLIS :: int
  OPEN_PRICE :: "rat option"
  HIGH_PRICE :: "rat option"
  LOW_PRICE :: "rat option"
  CLOSE_PRICE :: "rat option"
  VOLUME :: "int option"

subsection \<open>Startup\<close>

record strategy_info =
  info_id :: int
  info_name :: string
  info_symbol :: string
  info_order_type :: string
  info_time_frame :: int
  info_lookback_days :: int
  info_extended_hours :: int

text \<open>
  What \<open>importlib.import_module\<close> does for a module path: it raises, or it gives a
  module that has a \<open>main\<close> attribute or has none.
\<close>

datatype import_result =
  ModuleNotFoundError | ImportError | ImportException | Module "strategy_fn option"

record startup_env =
  candles :: "string \<Rightarrow> error + frame"
  import_module :: "string \<Rightarrow> import_result"
  client_ok :: bool

text \<open>
  \<open>_import_strategy\<close> (the leading underscore is dropped): the result, the cache
  afterwards and the log.
\<close>

definition import_strategy ::
  "startup_env \<Rightarrow> strategy_cache \<Rightarrow> string \<Rightarrow> bool \<times> strategy_cache \<times> event list" where
  "import_strategy w cache strat_name =
     (if strat_name \<in> dom cache
      then (True, cache, [Log DEBUG (''[IMPORT] already cached: '' @ strat_name)])
      else
        (let module_path = ''tradeBot.strategies.'' @ strat_name;
             attempt = Log INFO (''[IMPORT] Attempting to import '' @ module_path)
         in case import_module w module_path of
              Module (Some strat_func) \<Rightarrow>
                (True, cache(strat_name \<mapsto> strat_func),
                 [attempt, Log INFO (''[IMPORT SUCCESS] '' @ strat_name)])
            | Module None \<Rightarrow>
                (False, cache,
                 [attempt, Log ERROR (''[IMPORT ERROR] no main function: '' @ strat_name)])
            | ModuleNotFoundError \<Rightarrow>
                (False, cache,
                 [attempt, Log ERROR (''[IMPORT ERROR] module not found: '' @ strat_name)])
            | ImportError \<Rightarrow>
                (False, cache,
                 [attempt, Log ERROR (''[IMPORT ERROR] failed to import: '' @ strat_name)])
            | ImportException \<Rightarrow>
                (False, cache,
                 [attempt, Log ERROR (''[IMPORT ERROR] unexpected error: '' @ strat_name)])))"

text \<open>
  The loop of \<open>_import_all_strategies\<close> over the distinct names, with the two
  counters.
\<close>

fun import_loop ::
  "startup_env \<Rightarrow> string list \<Rightarrow> strategy_cache \<Rightarrow> nat \<Rightarrow> nat
     \<Rightarrow> strategy_cache \<times> nat \<times> nat \<times> event list" where
  "import_loop w [] cache success_count fail_count = (cache, success_count, fail_count, [])"
| "import_loop w (strat_name # names) cache success_count fail_count =
     (let (ok, cache', ev) = import_strategy w cache strat_name;
          (cache'', s, f, ev') =
            (if ok then import_loop w names cache' (success_count + 1) fail_count
             else import_loop w names cache' success_count (fail_count + 1))
      in (cache'', s, f, ev @ ev'))"

text \<open>
  \<open>_import_all_strategies\<close> returns \<open>None\<close> whatever the counters are: a failed import
  gives one more line in the log. The set of names is visited in the order of first
  occurrence.
\<close>

definition import_all_strategies ::
  "startup_env \<Rightarrow> strategy_cache \<Rightarrow> strategy_info list \<Rightarrow> strategy_cache \<times> event list" where
  "import_all_strategies w cache strategy_infos =
     (let unique_strategies = remdups (map info_name strategy_infos);
          (cache', success_count, fail_count, ev) = import_loop w unique_strategies cache 0 0
      in (cache',
          [Log INFO ''[STARTUP] Importing strategy modules...''] @ ev
            @ [Log INFO ''[STARTUP] Strategy import complete'']
            @ (if 0 < fail_count then [Log WARNING ''[STARTUP] strategies failed to import'']
               else [])))"

text \<open>
  \<open>_initial_df\<close>: one entry of \<open>df_dict\<close> per strategy, the latch unset. An exception
  from the download of the history ends the loop.
\<close>

fun initial_df ::
  "startup_env \<Rightarrow> strategy_info list \<Rightarrow> (int \<times> strategy_data) list
     \<Rightarrow> (int \<times> strategy_data) list \<times> event list" where
  "initial_df w [] df_dict = (df_dict, [Log INFO ''[INIT] Successfully loaded''])"
| "initial_df w (strat # strats) df_dict =
     (case candles w (upper (info_symbol strat)) of
        Inl e \<Rightarrow> (df_dict, [Log ERROR ''[INIT ERROR] Failed to initialize historical bars''])
      | Inr historical_df \<Rightarrow>
          (let (df_dict', ev) =
                 initial_df w strats
                   (dict_set (info_id strat)
                      \<lparr>df = historical_df, itsTime = False, name = info_name strat,
                       symbol = upper (info_symbol strat),
                       order_type = upper (info_order_type strat),
                       time_frame = info_time_frame strat,
                       extended_hours = (info_extended_hours strat = 1)\<rparr>
                      df_dict)
           in (df_dict', Log INFO ''[INIT] Loaded historical data'' # ev)))"

text \<open>
  The part of \<open>run_stream\<close> before the message loop. The only exit is the failure to
  build the stream client (\<open>sys.exit(1)\<close>), which is \<open>None\<close> here; otherwise the stream
  is entered with the \<open>df_dict\<close> and the cache that the two loaders left.
\<close>

definition run_stream_startup ::
  "startup_env \<Rightarrow> strategy_info list
     \<Rightarrow> ((int \<times> strategy_data) list \<times> strategy_cache) option \<times> event list" where
  "run_stream_startup w strategy_infos =
     (let (df_dict, ev1) = initial_df w strategy_infos [];
          (cache, ev2) = import_all_strategies w Map.empty strategy_infos
      in if client_ok w
         then (Some (df_dict, cache),
               ev1 @ ev2 @ [Log INFO ''[STREAM INIT] Stream client initialized''])
         else (None,
               ev1 @ ev2 @ [Log CRITICAL ''[STREAM INIT FAILED] Unable to initialize stream client'']))"

subsection \<open>\<open>on_bar\<close>\<close>

text \<open>
  The minute of the hour of a bar (\<open>bar_ts.minute\<close>), and the index entry of its row:
  the wall-clock minute in New York, at the standard offset of five hours.
\<close>

definition bar_minute :: "int \<Rightarrow> int" where
  "bar_minute millis = (millis div 60000) mod 60"

definition to_datetime :: "int \<Rightarrow> int" where
  "to_datetime millis = millis div 60000 - 300"

text \<open>The one-row frame \<open>new_bars\<close>; \<open>item.get(k, 0)\<close> puts 0 for an absent key.\<close>

definition new_bars :: "item \<Rightarrow> string \<Rightarrow> row" where
  "new_bars it bar_symbol =
     (to_datetime (CHART_TIME_MILLIS it),
      \<lparr>symbol_c = Some bar_symbol,
       open_c = Some (case OPEN_PRICE it of None \<Rightarrow> 0 | Some v \<Rightarrow> v),
       high_c = Some (case HIGH_PRICE it of None \<Rightarrow> 0 | Some v \<Rightarrow> v),
       low_c = Some (case LOW_PRICE it of None \<Rightarrow> 0 | Some v \<Rightarrow> v),
       close_c = Some (case CLOSE_PRICE it of None \<Rightarrow> 0 | Some v \<Rightarrow> v),
       volume_c = Some (case VOLUME it of None \<Rightarrow> 0 | Some v \<Rightarrow> v)\<rparr>)"

text \<open>
  \<open>pd.concat([df, new_bars]).sort_index()\<close>: the row is put after the rows of the
  buffer and the result is ordered by the index. Nothing is looked up in the index.
\<close>

definition concat_bars :: "frame \<Rightarrow> row \<Rightarrow> frame" where
  "concat_bars buffer r =
     sort_index
       \<lparr>index_kind = index_kind buffer,
        columns = columns buffer @ filter (\<lambda>c. c \<notin> set (columns buffer)) required_cols,
        rows = rows buffer @ [r]\<rparr>"

text \<open>
  Lines 283 to 293: the latch. \<open>None\<close> is the \<open>continue\<close> of the source, taken before
  the bar is put into the buffer.
\<close>

definition check_its_time ::
  "strategy_data \<Rightarrow> int \<Rightarrow> error + (strategy_data \<times> event list) option" where
  "check_its_time sd bar_min =
     (if \<not> itsTime sd
      then (case its_time bar_min (time_frame sd) of
              Inl e \<Rightarrow> Inl e
            | Inr True \<Rightarrow> Inr (Some (sd\<lparr>itsTime := True\<rparr>, [Log DEBUG ''[TIMEFRAME] activating processing'']))
            | Inr False \<Rightarrow> Inr None)
      else Inr (Some (sd, [])))"

text \<open>
  Lines 341 to 415: the evaluation of the strategy on the candles and the order that a
  signal on the last row asks for. Every exception is caught and logged here.
\<close>

definition strategy_cycle ::
  "env \<Rightarrow> strategy_cache \<Rightarrow> position list \<Rightarrow> int \<Rightarrow> strategy_data \<Rightarrow> frame
     \<Rightarrow> position list \<times> event list" where
  "strategy_cycle w cache table strategy_id sd candle_time_frame_df =
     (case cache (name sd) of
        None \<Rightarrow> (table, [Log ERROR (''[STRATEGY ERROR] not found in cache: '' @ name sd)])
      | Some strat_func \<Rightarrow>
          (let called = Evaluate (name sd) candle_time_frame_df;
               failed = Log ERROR (''[STRATEGY ERROR] encountered error: '' @ name sd)
           in case strat_func candle_time_frame_df of
                Inl e \<Rightarrow> (table, [called, failed])
              | Inr new_strat_df \<Rightarrow>
                  (if new_strat_df = [] then (table, [called, failed])
                   else
                     (let recent_candle = last new_strat_df
                      in case signal recent_candle of
                           None \<Rightarrow> (table, [called, Log DEBUG ''Strategy completed''])
                         | Some s \<Rightarrow>
                             (if s = [] then (table, [called, Log DEBUG ''Strategy completed''])
                              else
                                (let qty = (case quantity recent_candle of
                                              None \<Rightarrow> 0 | Some q \<Rightarrow> q);
                                     instruction = upper s;
                                     placing = Log INFO ''[ORDER] Placing order'';
                                     price = (if order_type sd = ''LIMIT''
                                              then close_c (candle recent_candle)
                                              else Some 0)
                                 in case price of
                                      None \<Rightarrow> (table, [called, placing, failed])
                                    | Some p \<Rightarrow>
                                        (case send_strategy_orders w table qty (time_frame sd)
                                                (symbol sd) strategy_id p instruction of
                                           Inl e \<Rightarrow> (table, [called, placing, failed])
                                         | Inr (result, table', ev) \<Rightarrow>
                                             (table',
                                              [called, placing] @ ev
                                                @ [Log DEBUG ''Strategy completed'']))))))))"

text \<open>
  Lines 295 to 422: the bar is appended, the candles are built and, one minute before a
  boundary, the strategy is run. Every exception is caught and logged here.
\<close>

definition process_bar ::
  "env \<Rightarrow> strategy_cache \<Rightarrow> item \<Rightarrow> string \<Rightarrow> position list \<Rightarrow> int \<Rightarrow> strategy_data
     \<Rightarrow> strategy_data \<times> position list \<times> event list" where
  "process_bar w cache it bar_symbol table strategy_id sd =
     (let bar_min = bar_minute (CHART_TIME_MILLIS it);
          buffer = concat_bars (df sd) (new_bars it bar_symbol);
          sd' = sd\<lparr>df := buffer\<rparr>;
          updated = Log DEBUG ''[DATA UPDATE] Added bar'';
          failed = Log ERROR ''[BAR PROCESSING ERROR] Failed to process bar data''
      in case (if time_frame sd = 1 then (Inr buffer, [])
               else (aggregate_time_frame buffer (time_frame sd),
                     [Aggregate buffer (time_frame sd)])) of
           (Inl e, ev) \<Rightarrow> (sd', table, updated # ev @ [failed])
         | (Inr candle_time_frame_df, ev) \<Rightarrow>
             (if is_empty candle_time_frame_df then (sd', table, updated # ev)
              else case its_time (bar_min + 1) (time_frame sd) of
                     Inl e \<Rightarrow> (sd', table, updated # ev @ [failed])
                   | Inr False \<Rightarrow> (sd', table, updated # ev)
                   | Inr True \<Rightarrow>
                       (let (table', ev') =
                              strategy_cycle w cache table strategy_id sd' candle_time_frame_df
                        in (sd', table', updated # ev @ ev'))))"

text \<open>The body of the loop over \<open>df_dict\<close> for one bar and one strategy instance.\<close>

definition on_bar_strategy ::
  "env \<Rightarrow> strategy_cache \<Rightarrow> item \<Rightarrow> string \<Rightarrow> position list \<Rightarrow> int \<Rightarrow> strategy_data
     \<Rightarrow> error + (strategy_data \<times> position list \<times> event list)" where
  "on_bar_strategy w cache it bar_symbol table strategy_id sd =
     (if symbol sd \<noteq> bar_symbol then Inr (sd, table, [])
      else case check_its_time sd (bar_minute (CHART_TIME_MILLIS it)) of
             Inl e \<Rightarrow> Inl e
           | Inr None \<Rightarrow> Inr (sd, table, [])
           | Inr (Some (sd', ev)) \<Rightarrow>
               (let (sd'', table', ev') = process_bar w cache it bar_symbol table strategy_id sd'
                in Inr (sd'', table', ev @ ev')))"

text \<open>
  The state that \<open>on_bar\<close> works on. An exception that leaves \<open>on_bar\<close> (the third
  component of the results below) ends the process in the message loop; the state is
  what had been written until then.
\<close>

record state =
  df_dict :: "(int \<times> strategy_data) list"
  positions :: "position list"

fun on_bar_strategies ::
  "env \<Rightarrow> strategy_cache \<Rightarrow> item \<Rightarrow> string \<Rightarrow> position list \<Rightarrow> (int \<times> strategy_data) list
     \<Rightarrow> (int \<times> strategy_data) list \<times> position list \<times> event list \<times> error option" where
  "on_bar_strategies w cache it bar_symbol table [] = ([], table, [], None)"
| "on_bar_strategies w cache it bar_symbol table ((strategy_id, sd) # rest) =
     (case on_bar_strategy w cache it bar_symbol table strategy_id sd of
        Inl e \<Rightarrow> ((strategy_id, sd) # rest, table, [], Some e)
      | Inr (sd', table', ev) \<Rightarrow>
          (let (rest', table'', ev', err) = on_bar_strategies w cache it bar_symbol table' rest
           in ((strategy_id, sd') # rest', table'', ev @ ev', err)))"

definition on_bar_item ::
  "env \<Rightarrow> strategy_cache \<Rightarrow> item \<Rightarrow> state \<Rightarrow> state \<times> event list \<times> error option" where
  "on_bar_item w cache it st =
     (let bar_symbol = upper (case key it of None \<Rightarrow> [] | Some k \<Rightarrow> k)
      in if bar_symbol = []
         then (st, [Log WARNING ''[BAR DATA] Received bar without symbol key, skipping''], None)
         else
           (let (dd, table, ev, err) =
                  on_bar_strategies w cache it bar_symbol (positions st) (df_dict st)
            in (\<lparr>df_dict = dd, positions = table\<rparr>, ev, err)))"

fun on_bar :: "env \<Rightarrow> strategy_cache \<Rightarrow> item list \<Rightarrow> state \<Rightarrow> state \<times> event list \<times> error option" where
  "on_bar w cache [] st = (st, [], None)"
| "on_bar w cache (it # content) st =
     (case on_bar_item w cache it st of
        (st', ev, Some e) \<Rightarrow> (st', ev, Some e)
      | (st', ev, None) \<Rightarrow>
          (let (st'', ev', err) = on_bar w cache content st' in (st'', ev @ ev', err)))"

text \<open>The message loop: the messages are handled one after the other until one raises.\<close>

fun handle_messages ::
  "env \<Rightarrow> strategy_cache \<Rightarrow> item list list \<Rightarrow> state \<Rightarrow> state \<times> event list \<times> error option" where
  "handle_messages w cache [] st = (st, [], None)"
| "handle_messages w cache (msg # msgs) st =
     (case on_bar w cache msg st of
        (st', ev, Some e) \<Rightarrow> (st', ev, Some e)
      | (st', ev, None) \<Rightarrow>
          (let (st'', ev', err) = handle_messages w cache msgs st' in (st'', ev @ ev', err)))"

text \<open>
  The latch of every strategy instance is kept from one \<open>df_dict\<close> to a later one: the
  same ids in the same order, and a latch that was set is still set.
\<close>

definition latch_kept ::
  "(int \<times> strategy_data) list \<Rightarrow> (int \<times> strategy_data) list \<Rightarrow> bool" where
  "latch_kept before after =
     list_all2 (\<lambda>x y. fst x = fst y \<and> (itsTime (snd x) \<longrightarrow> itsTime (snd y))) before after"

text \<open>Events that come from the brokerage calls or the logger.\<close>

definition is_call :: "event \<Rightarrow> bool" where
  "is_call e = (case e of Aggregate f n \<Rightarrow> True | Evaluate s f \<Rightarrow> True | _ \<Rightarrow> False)"

text \<open>
  Sample data: a bar of SPY at 14:30 UTC on 2025-10-27 (minute 30 of the hour) and the
  bar three minutes later; a five-minute strategy instance on SPY with an empty
  history, its latch unset; a configuration whose strategy module \<open>ghost\<close> does not
  exist, with a one-minute timeframe; and a startup in which no module can be imported.
\<close>

definition sample_item :: item where
  "sample_item =
     \<lparr>key = Some ''spy'', CHART_TIME_MILLIS = (20388 * 1440 + 870) * 60000,
      OPEN_PRICE = Some 10, HIGH_PRICE = Some 12, LOW_PRICE = Some 9, CLOSE_PRICE = Some 11,
      VOLUME = Some 100\<rparr>"

definition sample_item_off_boundary :: item where
  "sample_item_off_boundary =
     sample_item\<lparr>CHART_TIME_MILLIS := (20388 * 1440 + 873) * 60000\<rparr>"

definition sample_strategy :: strategy_data where
  "sample_strategy =
     \<lparr>df = \<lparr>index_kind = DatetimeIndex, columns = required_cols, rows = []\<rparr>,
      itsTime = False, name = ''smaCross'', symbol = ''SPY'', order_type = ''MARKET'',
      time_frame = 5, extended_hours = False\<rparr>"

definition ghost_info :: strategy_info where
  "ghost_info =
     \<lparr>info_id = 1, info_name = ''ghost'', info_symbol = ''spy'', info_order_type = ''market'',
      info_time_frame = 1, info_lookback_days = 10, info_extended_hours = 0\<rparr>"

definition ghost_env :: startup_env where
  "ghost_env =
     \<lparr>candles = (\<lambda>s. Inr \<lparr>index_kind = DatetimeIndex, columns = required_cols, rows = []\<rparr>),
      import_module = (\<lambda>p. ModuleNotFoundError),
      client_ok = True\<rparr>"

text \<open>A strategy function that never signals: every candle gets no signal and quantity 0.\<close>

definition hold_strategy :: strategy_fn where
  "hold_strategy candles_df =
     Inr (map (\<lambda>r. \<lparr>candle = snd r, signal = None, quantity = Some 0\<rparr>) (rows candles_df))"

section \<open>Properties\<close>

lemma notna_simps [simp]:
  "notna [] = []" "notna (None # xs) = notna xs" "notna (Some x # xs) = x # notna xs"
  by (simp_all add: notna_def)




















subsection \<open>Aggregation\<close>





text \<open>
  C2. Only an empty bucket is dropped. A bucket that holds some but not all of its
  \<open>T\<close> raw bars is emitted: seven one-minute bars from 09:30 aggregated at 5 give a
  second bar, labelled 09:35, that is built from the two raw bars 09:35 and 09:36 alone.
\<close>

theorem aggregate_time_frame_partial_bucket:
  "aggregate_time_frame (create_sample_df 7) 5 =
     Inr \<lparr>index_kind = DatetimeIndex, columns = required_cols,
          rows =
            [(sample_start,
              \<lparr>symbol_c = Some ''test'', open_c = Some 0, high_c = Some 5, low_c = Some 0,
               close_c = Some 5, volume_c = Some 500\<rparr>),
             (sample_start + 5,
              \<lparr>symbol_c = Some ''test'', open_c = Some 5, high_c = Some 7, low_c = Some 5,
               close_c = Some 7, volume_c = Some 200\<rparr>)]\<rparr>
   \<and> length (bucket_rows (create_sample_df 7) 5 (sample_start + 5)) = 2"
  by code_simp

text \<open>The part of C2 that the code keeps: fewer rows than \<open>T\<close> give the empty frame.\<close>

lemma aggregate_time_frame_short:
  assumes "index_kind buf = DatetimeIndex" "0 < T" "int (length (rows buf)) < T"
  shows "aggregate_time_frame buf T = Inr empty_frame"
  using assms by (simp add: aggregate_time_frame_def)

lemma sort_index_idem: "sort_key fst (sort_key fst (rs :: row list)) = sort_key fst rs"
  by (rule sort_key_id_if_sorted) simp

lemma sort_index_simps [simp]:
  "index_kind (sort_index buf) = index_kind buf"
  "columns (sort_index buf) = columns buf"
  "length (rows (sort_index buf)) = length (rows buf)"
  "is_empty (sort_index buf) = is_empty buf"
proof -
  have "(sort_key fst (rows buf) = []) = (rows buf = [])"
    by (metis length_0_conv length_sort)
  then show "is_empty (sort_index buf) = is_empty buf"
    by (simp add: sort_index_def is_empty_def)
qed (simp_all add: sort_index_def)

lemma resample_sort_index: "resample (rows (sort_index buf)) T = resample (rows buf) T"
  by (simp add: resample_def sort_index_def sort_index_idem)

lemma aggregate_sort_index:
  "aggregate_time_frame (sort_index buf) T = aggregate_time_frame buf T"
  unfolding aggregate_time_frame_def by (simp only: sort_index_simps resample_sort_index)

text \<open>
  C7, as the code has it. The checks run in the order: empty buffer, index kind,
  timeframe, length, columns. A buffer that is not empty raises \<open>ValueError\<close> when its
  index is not a \<open>DatetimeIndex\<close>, when the timeframe is not positive, and, if it has at
  least \<open>T\<close> rows, when a required column is missing. An empty buffer gives the empty
  frame whatever the other arguments are, and so does a datetime-indexed buffer shorter
  than a positive \<open>T\<close>, whatever its columns are. The order of the index is not checked:
  the result for a buffer is the result for the same buffer put in time order.
\<close>

theorem aggregate_time_frame_invalid_input:
  "(is_empty buf \<longrightarrow> aggregate_time_frame buf T = Inr empty_frame)
   \<and> (\<not> is_empty buf \<and> index_kind buf \<noteq> DatetimeIndex
        \<longrightarrow> aggregate_time_frame buf T = Inl ValueError)
   \<and> (\<not> is_empty buf \<and> index_kind buf = DatetimeIndex \<and> T \<le> 0
        \<longrightarrow> aggregate_time_frame buf T = Inl ValueError)
   \<and> (\<not> is_empty buf \<and> index_kind buf = DatetimeIndex \<and> 0 < T
        \<and> int (length (rows buf)) < T
        \<longrightarrow> aggregate_time_frame buf T = Inr empty_frame)
   \<and> (\<not> is_empty buf \<and> index_kind buf = DatetimeIndex \<and> 0 < T
        \<and> T \<le> int (length (rows buf)) \<and> \<not> set required_cols \<subseteq> set (columns buf)
        \<longrightarrow> aggregate_time_frame buf T = Inl ValueError)
   \<and> aggregate_time_frame (sort_index buf) T = aggregate_time_frame buf T"
proof -
  have c: "\<not> set required_cols \<subseteq> set (columns buf)
        \<Longrightarrow> filter (\<lambda>col. col \<notin> set (columns buf)) required_cols \<noteq> []"
    by (auto simp: filter_empty_conv)
  have 1: "is_empty buf \<longrightarrow> aggregate_time_frame buf T = Inr empty_frame"
    by (simp add: aggregate_time_frame_def)
  have 2: "\<not> is_empty buf \<and> index_kind buf \<noteq> DatetimeIndex
        \<longrightarrow> aggregate_time_frame buf T = Inl ValueError"
    by (simp add: aggregate_time_frame_def)
  have 3: "\<not> is_empty buf \<and> index_kind buf = DatetimeIndex \<and> T \<le> 0
        \<longrightarrow> aggregate_time_frame buf T = Inl ValueError"
    by (simp add: aggregate_time_frame_def)
  have 4: "\<not> is_empty buf \<and> index_kind buf = DatetimeIndex \<and> 0 < T
        \<and> int (length (rows buf)) < T
        \<longrightarrow> aggregate_time_frame buf T = Inr empty_frame"
    by (simp add: aggregate_time_frame_def)
  have 5: "\<not> is_empty buf \<and> index_kind buf = DatetimeIndex \<and> 0 < T
        \<and> T \<le> int (length (rows buf)) \<and> \<not> set required_cols \<subseteq> set (columns buf)
        \<longrightarrow> aggregate_time_frame buf T = Inl ValueError"
    using c by (simp add: aggregate_time_frame_def)
  from 1 2 3 4 5 aggregate_sort_index [of buf T] show ?thesis by blast
qed

theorem aggregate_time_frame_invalid_input_witness:
  "aggregate_time_frame ((create_sample_df 3)\<lparr>index_kind := OtherIndex\<rparr>) 5 = Inl ValueError
   \<and> aggregate_time_frame (create_sample_df 3) 0 = Inl ValueError
   \<and> aggregate_time_frame ((create_sample_df 7)\<lparr>columns := [''symbol'', ''open'']\<rparr>) 5
       = Inl ValueError
   \<and> aggregate_time_frame (create_sample_df 0) (- 1) = Inr empty_frame
   \<and> aggregate_time_frame (create_sample_df 3) 5 = Inr empty_frame
   \<and> aggregate_time_frame (sort_index unordered_sample_df) 5
       = aggregate_time_frame unordered_sample_df 5"
proof -
  have 1: "\<not> is_empty ((create_sample_df 3)\<lparr>index_kind := OtherIndex\<rparr>)
           \<and> index_kind ((create_sample_df 3)\<lparr>index_kind := OtherIndex\<rparr>) \<noteq> DatetimeIndex"
    by code_simp
  have 2: "\<not> is_empty (create_sample_df 3) \<and> index_kind (create_sample_df 3) = DatetimeIndex
           \<and> (0::int) \<le> 0"
    by code_simp
  have 3: "\<not> is_empty ((create_sample_df 7)\<lparr>columns := [''symbol'', ''open'']\<rparr>)
           \<and> index_kind ((create_sample_df 7)\<lparr>columns := [''symbol'', ''open'']\<rparr>) = DatetimeIndex
           \<and> (0::int) < 5
           \<and> 5 \<le> int (length (rows ((create_sample_df 7)\<lparr>columns := [''symbol'', ''open'']\<rparr>)))
           \<and> \<not> set required_cols
                 \<subseteq> set (columns ((create_sample_df 7)\<lparr>columns := [''symbol'', ''open'']\<rparr>))"
    by code_simp
  have 4: "is_empty (create_sample_df 0)" by code_simp
  have 5: "\<not> is_empty (create_sample_df 3) \<and> index_kind (create_sample_df 3) = DatetimeIndex
           \<and> (0::int) < 5 \<and> int (length (rows (create_sample_df 3))) < 5"
    by code_simp
  have a: "aggregate_time_frame ((create_sample_df 3)\<lparr>index_kind := OtherIndex\<rparr>) 5
           = Inl ValueError"
    using 1 aggregate_time_frame_invalid_input
      [of "(create_sample_df 3)\<lparr>index_kind := OtherIndex\<rparr>" 5]
    by blast
  have b: "aggregate_time_frame (create_sample_df 3) 0 = Inl ValueError"
    using 2 aggregate_time_frame_invalid_input [of "create_sample_df 3" 0] by blast
  have c: "aggregate_time_frame ((create_sample_df 7)\<lparr>columns := [''symbol'', ''open'']\<rparr>) 5
           = Inl ValueError"
    using 3 aggregate_time_frame_invalid_input
      [of "(create_sample_df 7)\<lparr>columns := [''symbol'', ''open'']\<rparr>" 5]
    by blast
  have d: "aggregate_time_frame (create_sample_df 0) (- 1) = Inr empty_frame"
    using 4 aggregate_time_frame_invalid_input [of "create_sample_df 0" "- 1"] by blast
  have e: "aggregate_time_frame (create_sample_df 3) 5 = Inr empty_frame"
    using 5 aggregate_time_frame_invalid_input [of "create_sample_df 3" 5] by blast
  have f: "aggregate_time_frame (sort_index unordered_sample_df) 5
           = aggregate_time_frame unordered_sample_df 5"
    using aggregate_time_frame_invalid_input [of unordered_sample_df 5] by blast
  from a b c d e f show ?thesis by (intro conjI)
qed

theorem aggregate_time_frame_invalid_input_counterexample:
  "\<not> sorted (map fst (rows unordered_sample_df))
   \<and> aggregate_time_frame unordered_sample_df 5 =
       Inr \<lparr>index_kind = DatetimeIndex, columns = required_cols,
            rows =
              [(sample_start,
                \<lparr>symbol_c = Some ''test'', open_c = Some 0, high_c = Some 5, low_c = Some 0,
                 close_c = Some 5, volume_c = Some 500\<rparr>)]\<rparr>
   \<and> aggregate_time_frame (create_sample_df 0) (- 1) = Inr empty_frame
   \<and> aggregate_time_frame ((create_sample_df 3)\<lparr>columns := [''symbol'', ''open'']\<rparr>) 5
       = Inr empty_frame"
  by code_simp

subsection \<open>Price rounding\<close>

lemma round_half_even_near: "\<bar>of_int (round_half_even x) - x\<bar> \<le> 1 / 2"
proof -
  let ?f = "\<lfloor>x\<rfloor>"
  have lo: "of_int ?f \<le> x" by simp
  have hi: "x < of_int ?f + 1" by linarith
  show ?thesis
    using lo hi unfolding round_half_even_def Let_def
    by (simp split: if_splits)
qed

lemma py_round_near:
  "\<exists>k::int. py_round x n = double_of (of_int k / 10 ^ n)
     \<and> \<bar>of_int k / 10 ^ n - x\<bar> \<le> 1 / (2 * 10 ^ n)"
proof -
  let ?k = "round_half_even (x * 10 ^ n)"
  have p: "(0::rat) < 10 ^ n" by simp
  have "\<bar>of_int ?k - x * 10 ^ n\<bar> \<le> 1 / 2" by (rule round_half_even_near)
  then have "\<bar>of_int ?k - x * 10 ^ n\<bar> / 10 ^ n \<le> (1 / 2) / 10 ^ n"
    using p by (intro divide_right_mono) simp_all
  moreover have "\<bar>of_int ?k - x * 10 ^ n\<bar> / 10 ^ n = \<bar>of_int ?k / 10 ^ n - x\<bar>"
  proof -
    have "of_int ?k / 10 ^ n - x = (of_int ?k - x * 10 ^ n) / 10 ^ n"
      using p by (simp add: field_simps)
    then show ?thesis using p by (simp add: abs_divide)
  qed
  ultimately have "\<bar>of_int ?k / 10 ^ n - x\<bar> \<le> 1 / (2 * 10 ^ n)" by simp
  then show ?thesis unfolding py_round_def by blast
qed

lemma round_price_examples:
  "round_price (double_of (12345 / 100000)) = double_of (1235 / 10000)"
  "round_price (double_of (12345 / 1000)) = double_of (1235 / 100)"
  "round_price 0 = 0"
  by code_simp+

lemma send_orders_posts:
  assumes "send_orders w qty exp_min price ticker instr = Inr (r, ev)"
  shows "filter is_post ev = [Post (build_order_data qty exp_min price ticker instr)]"
  using assms
  by (auto simp: send_orders_def Let_def is_post_def split: if_splits http.splits option.splits)

text \<open>
  C6. \<open>round_price\<close> rounds a price below 1 to the nearest number with four decimals
  and a price of 1 or more to the nearest number with two decimals (the result is the
  float of that decimal). As floats, 0.12345 gives 0.1235, 12.345 gives 12.35 and 0
  gives 0. Every order that \<open>send_orders\<close> posts carries the rounded price, and a
  price of 0 makes it a market order.
\<close>

theorem round_price_policy:
  "(price < 1 \<longrightarrow>
      (\<exists>k::int. round_price price = double_of (of_int k / 10 ^ 4)
         \<and> \<bar>of_int k / 10 ^ 4 - price\<bar> \<le> 1 / (2 * 10 ^ 4)))
   \<and> (1 \<le> price \<longrightarrow>
      (\<exists>k::int. round_price price = double_of (of_int k / 10 ^ 2)
         \<and> \<bar>of_int k / 10 ^ 2 - price\<bar> \<le> 1 / (2 * 10 ^ 2)))
   \<and> round_price (double_of (12345 / 100000)) = double_of (1235 / 10000)
   \<and> round_price (double_of (12345 / 1000)) = double_of (1235 / 100)
   \<and> round_price 0 = 0
   \<and> orderType (build_order_data qty exp_min 0 ticker instr) = ''MARKET''
   \<and> orderType (build_order_data qty exp_min price ticker instr)
       = (if round_price price = 0 then ''MARKET'' else ''LIMIT'')
   \<and> order_price (build_order_data qty exp_min price ticker instr)
       = (if 0 < round_price price then Some (round_price price) else None)
   \<and> (send_orders w qty exp_min price ticker instr = Inr (r, ev) \<longrightarrow>
        filter is_post ev = [Post (build_order_data qty exp_min price ticker instr)])"
proof -
  have a: "price < 1 \<longrightarrow>
      (\<exists>k::int. round_price price = double_of (of_int k / 10 ^ 4)
         \<and> \<bar>of_int k / 10 ^ 4 - price\<bar> \<le> 1 / (2 * 10 ^ 4))"
    using py_round_near [of price 4] by (simp add: round_price_def)
  have b: "1 \<le> price \<longrightarrow>
      (\<exists>k::int. round_price price = double_of (of_int k / 10 ^ 2)
         \<and> \<bar>of_int k / 10 ^ 2 - price\<bar> \<le> 1 / (2 * 10 ^ 2))"
    using py_round_near [of price 2] by (simp add: round_price_def)
  have c: "orderType (build_order_data qty exp_min 0 ticker instr) = ''MARKET''"
    by (simp add: build_order_data_def round_price_examples(3))
  have d: "orderType (build_order_data qty exp_min price ticker instr)
       = (if round_price price = 0 then ''MARKET'' else ''LIMIT'')"
    by (simp add: build_order_data_def Let_def)
  have e: "order_price (build_order_data qty exp_min price ticker instr)
       = (if 0 < round_price price then Some (round_price price) else None)"
    by (simp add: build_order_data_def Let_def)
  have f: "send_orders w qty exp_min price ticker instr = Inr (r, ev) \<longrightarrow>
        filter is_post ev = [Post (build_order_data qty exp_min price ticker instr)]"
    using send_orders_posts by blast
  from a b c d e f round_price_examples show ?thesis by (intro conjI)
qed

theorem round_price_policy_witness:
  "double_of (12345 / 100000) < 1
   \<and> (\<exists>k::int. round_price (double_of (12345 / 100000)) = double_of (of_int k / 10 ^ 4)
         \<and> \<bar>of_int k / 10 ^ 4 - double_of (12345 / 100000)\<bar> \<le> 1 / (2 * 10 ^ 4))
   \<and> 1 \<le> double_of (12345 / 1000)
   \<and> (\<exists>k::int. round_price (double_of (12345 / 1000)) = double_of (of_int k / 10 ^ 2)
         \<and> \<bar>of_int k / 10 ^ 2 - double_of (12345 / 1000)\<bar> \<le> 1 / (2 * 10 ^ 2))
   \<and> send_orders broker_accepting 10 5 (double_of (12345 / 1000)) ''SPY'' ''BUY''
       = Inr (Some ''12345'',
              [Post \<lparr>orderType = ''LIMIT'', leg_instruction = ''BUY'', leg_quantity = 10,
                     leg_symbol = ''SPY'', order_price = Some (double_of (1235 / 100)),
                     cancel_minutes = Some 5\<rparr>])
   \<and> filter is_post
        [Post \<lparr>orderType = ''LIMIT'', leg_instruction = ''BUY'', leg_quantity = 10,
               leg_symbol = ''SPY'', order_price = Some (double_of (1235 / 100)),
               cancel_minutes = Some 5\<rparr>]
       = [Post (build_order_data 10 5 (double_of (12345 / 1000)) ''SPY'' ''BUY'')]"
proof -
  let ?ev = "[Post \<lparr>orderType = ''LIMIT'', leg_instruction = ''BUY'', leg_quantity = 10,
                     leg_symbol = ''SPY'', order_price = Some (double_of (1235 / 100)),
                     cancel_minutes = Some 5\<rparr>]"
  have lt: "double_of (12345 / 100000) < 1" by code_simp
  have ge: "1 \<le> double_of (12345 / 1000)" by code_simp
  have so: "send_orders broker_accepting 10 5 (double_of (12345 / 1000)) ''SPY'' ''BUY''
            = Inr (Some ''12345'', ?ev)"
    by code_simp
  have 1: "\<exists>k::int. round_price (double_of (12345 / 100000)) = double_of (of_int k / 10 ^ 4)
         \<and> \<bar>of_int k / 10 ^ 4 - double_of (12345 / 100000)\<bar> \<le> 1 / (2 * 10 ^ 4)"
    using lt round_price_policy [of "double_of (12345 / 100000)"] by blast
  have 2: "\<exists>k::int. round_price (double_of (12345 / 1000)) = double_of (of_int k / 10 ^ 2)
         \<and> \<bar>of_int k / 10 ^ 2 - double_of (12345 / 1000)\<bar> \<le> 1 / (2 * 10 ^ 2)"
    using ge round_price_policy [of "double_of (12345 / 1000)"] by blast
  have 3: "filter is_post ?ev
           = [Post (build_order_data 10 5 (double_of (12345 / 1000)) ''SPY'' ''BUY'')]"
    using so round_price_policy
      [of "double_of (12345 / 1000)" 10 5 "''SPY''" "''BUY''" broker_accepting "Some ''12345''" ?ev]
    by blast
  from lt 1 ge 2 so 3 show ?thesis by (intro conjI)
qed

subsection \<open>Orders and the table of active positions\<close>



lemma sell_branch:
  assumes "upper instr = ''SELL''"
  shows "send_strategy_orders w table qty exp_min ticker sid price instr =
     (case get_order_id_list w table sid of
        Inl e \<Rightarrow>
          Inr (Some ''SELL completed'', table,
               [Log ERROR ''Error processing SELL for strategy'', Log INFO ''Sent sell order''])
      | Inr order_id_list \<Rightarrow>
          (case sell_loop w (round_price price) ticker order_id_list of
             (ev, Some e) \<Rightarrow>
               Inr (Some ''SELL completed'', table,
                    ev @ [Log ERROR ''Error processing SELL for strategy'',
                          Log INFO ''Sent sell order''])
           | (ev, None) \<Rightarrow>
               (case delete_active_positions w table sid of
                  Inl e \<Rightarrow>
                    Inr (Some ''SELL completed'', table,
                         ev @ [Log ERROR ''Error processing SELL for strategy'',
                               Log INFO ''Sent sell order''])
                | Inr table' \<Rightarrow>
                    Inr (Some ''SELL completed'', table', ev @ [Log INFO ''Sent sell order'']))))"
  using assms by (simp add: send_strategy_orders_def Let_def)

lemma buy_branch:
  assumes "upper instr = ''BUY''"
  shows "send_strategy_orders w table qty exp_min ticker sid price instr =
     (case send_orders w qty exp_min (round_price price) ticker ''BUY'' of
        Inl e \<Rightarrow> Inl e
      | Inr (None, ev) \<Rightarrow> Inr (None, table, ev)
      | Inr (Some order_id, ev) \<Rightarrow>
          (if order_id = [] then Inr (None, table, ev)
           else case add_active_position w table sid order_id qty (round_price price) of
                  Inl e \<Rightarrow>
                    Inr (Some ''BUY completed'', table,
                         ev @ [Log ERROR ''Error inserting order to DB'',
                               Log INFO ''Sent buy order''])
                | Inr table' \<Rightarrow>
                    Inr (Some ''BUY completed'', table', ev @ [Log INFO ''Sent buy order''])))"
  using assms by (simp add: send_strategy_orders_def Let_def)




text \<open>
  C5, as the code has it. A BUY whose placement gives no order id leaves the table
  as it was, and exactly one order request was sent. An error line is logged unless
  the brokerage answered 201: an answer 201 that carries no usable \<open>Location\<close> gives no
  order id and no log line.
\<close>

theorem buy_failure_leaves_store:
  assumes "upper instr = ''BUY''"
    and "send_strategy_orders w table qty exp_min ticker sid price instr = Inr (None, table', ev)"
  shows "table' = table
    \<and> filter is_post ev = [Post (build_order_data qty exp_min (round_price price) ticker ''BUY'')]
    \<and> ((filter is_error_log ev \<noteq> [])
         = (\<forall>loc. http_post w (build_order_data qty exp_min (round_price price) ticker ''BUY'')
                   \<noteq> Response 201 loc))"
proof -
  let ?od = "build_order_data qty exp_min (round_price price) ticker ''BUY''"
  from assms(2) obtain r where
    so: "send_orders w qty exp_min (round_price price) ticker ''BUY'' = Inr (r, ev)"
    and t: "table' = table"
    unfolding buy_branch [OF assms(1)]
    by (auto split: sum.splits option.splits if_splits prod.splits)
  have p: "filter is_post ev = [Post ?od]" using so by (rule send_orders_posts)
  have l: "(filter is_error_log ev \<noteq> []) = (\<forall>loc. http_post w ?od \<noteq> Response 201 loc)"
    using so
    by (auto simp: send_orders_def Let_def is_error_log_def raises_for_status_def
        split: if_splits http.splits option.splits)
  from t p l show ?thesis by blast
qed

theorem buy_failure_leaves_store_witness:
  "upper ''buy'' = ''BUY''
   \<and> send_strategy_orders broker_down
        [\<lparr>pos_strategy_id = 2, pos_order_id = ''77'', pos_quantity = 3, pos_entry_price = 9\<rparr>]
        10 5 ''SPY'' 1 0 ''buy''
       = Inr (None,
              [\<lparr>pos_strategy_id = 2, pos_order_id = ''77'', pos_quantity = 3,
                pos_entry_price = 9\<rparr>],
              [Post \<lparr>orderType = ''MARKET'', leg_instruction = ''BUY'', leg_quantity = 10,
                     leg_symbol = ''SPY'', order_price = None, cancel_minutes = Some 5\<rparr>,
               Log ERROR ''Order request timed out.''])
   \<and> filter is_post
        [Post \<lparr>orderType = ''MARKET'', leg_instruction = ''BUY'', leg_quantity = 10,
               leg_symbol = ''SPY'', order_price = None, cancel_minutes = Some 5\<rparr>,
         Log ERROR ''Order request timed out.'']
       = [Post (build_order_data 10 5 (round_price 0) ''SPY'' ''BUY'')]
   \<and> filter is_error_log
        [Post \<lparr>orderType = ''MARKET'', leg_instruction = ''BUY'', leg_quantity = 10,
               leg_symbol = ''SPY'', order_price = None, cancel_minutes = Some 5\<rparr>,
         Log ERROR ''Order request timed out.''] \<noteq> []"
proof -
  let ?t = "[\<lparr>pos_strategy_id = 2, pos_order_id = ''77'', pos_quantity = 3,
               pos_entry_price = 9\<rparr>]"
  let ?ev = "[Post \<lparr>orderType = ''MARKET'', leg_instruction = ''BUY'', leg_quantity = 10,
                     leg_symbol = ''SPY'', order_price = None, cancel_minutes = Some 5\<rparr>,
              Log ERROR ''Order request timed out.'']"
  have u: "upper ''buy'' = ''BUY''" by code_simp
  have r: "send_strategy_orders broker_down ?t 10 5 ''SPY'' 1 0 ''buy'' = Inr (None, ?t, ?ev)"
    by code_simp
  have e: "filter is_error_log ?ev \<noteq> []" by (simp add: is_error_log_def)
  from buy_failure_leaves_store [OF u r] u r e show ?thesis by blast
qed

theorem buy_failure_leaves_store_counterexample:
  "send_strategy_orders broker_no_location [] 10 5 ''SPY'' 1 0 ''BUY''
     = Inr (None, [],
            [Post \<lparr>orderType = ''MARKET'', leg_instruction = ''BUY'', leg_quantity = 10,
                   leg_symbol = ''SPY'', order_price = None, cancel_minutes = Some 5\<rparr>])
   \<and> filter is_log
        [Post \<lparr>orderType = ''MARKET'', leg_instruction = ''BUY'', leg_quantity = 10,
               leg_symbol = ''SPY'', order_price = None, cancel_minutes = Some 5\<rparr>] = []"
  by code_simp

subsection \<open>The bar handler\<close>

lemma process_bar_state:
  "fst (process_bar w cache it bs table sid sd)
     = sd\<lparr>df := concat_bars (df sd) (new_bars it bs)\<rparr>"
  by (simp add: process_bar_def Let_def split: sum.splits bool.splits prod.splits)


lemma on_bar_strategy_latched:
  assumes "symbol sd = bs" "itsTime sd"
  shows "\<exists>table' ev. on_bar_strategy w cache it bs table sid sd
           = Inr (sd\<lparr>df := concat_bars (df sd) (new_bars it bs)\<rparr>, table', ev)"
proof -
  obtain s t e where p: "process_bar w cache it bs table sid sd = (s, t, e)"
    by (cases "process_bar w cache it bs table sid sd") auto
  then have "s = sd\<lparr>df := concat_bars (df sd) (new_bars it bs)\<rparr>"
    using process_bar_state [of w cache it bs table sid sd] by simp
  with p assms show ?thesis
    by (simp add: on_bar_strategy_def check_its_time_def)
qed

lemma on_bar_strategy_boundary:
  assumes "symbol sd = bs" "\<not> itsTime sd" "time_frame sd \<noteq> 0"
    and "bar_minute (CHART_TIME_MILLIS it) mod time_frame sd = 0"
  shows "\<exists>table' ev. on_bar_strategy w cache it bs table sid sd
           = Inr (sd\<lparr>itsTime := True, df := concat_bars (df sd) (new_bars it bs)\<rparr>, table', ev)"
proof -
  let ?sd = "sd\<lparr>itsTime := True\<rparr>"
  obtain s t e where p: "process_bar w cache it bs table sid ?sd = (s, t, e)"
    by (cases "process_bar w cache it bs table sid ?sd") auto
  then have "s = ?sd\<lparr>df := concat_bars (df ?sd) (new_bars it bs)\<rparr>"
    using process_bar_state [of w cache it bs table sid ?sd] by simp
  with p assms show ?thesis
    by (simp add: on_bar_strategy_def check_its_time_def its_time_def)
qed

lemma on_bar_strategy_waiting:
  assumes "symbol sd = bs" "\<not> itsTime sd" "time_frame sd \<noteq> 0"
    and "bar_minute (CHART_TIME_MILLIS it) mod time_frame sd \<noteq> 0"
  shows "on_bar_strategy w cache it bs table sid sd = Inr (sd, table, [])"
  using assms by (simp add: on_bar_strategy_def check_its_time_def its_time_def)




lemma on_bar_strategy_keeps_latch:
  assumes "on_bar_strategy w cache it bs table sid sd = Inr (sd', table', ev)" "itsTime sd"
  shows "itsTime sd'"
proof (cases "symbol sd = bs")
  case False
  with assms show ?thesis by (simp add: on_bar_strategy_def)
next
  case True
  from on_bar_strategy_latched [OF True assms(2), of w cache it table sid] assms(1)
  show ?thesis using assms(2) by auto
qed

lemma latch_kept_refl: "latch_kept dd dd"
  by (simp add: latch_kept_def list_all2_same)

lemma latch_kept_trans:
  assumes "latch_kept a b" "latch_kept b c"
  shows "latch_kept a c"
  using assms unfolding latch_kept_def
  by (rule list_all2_trans [rotated]) auto

lemma on_bar_strategies_latch:
  assumes "on_bar_strategies w cache it bs table dd = (dd', table', ev, err)"
  shows "latch_kept dd dd'"
  using assms
proof (induction dd arbitrary: table dd' table' ev err)
  case Nil
  then show ?case by (simp add: latch_kept_def)
next
  case (Cons x dd)
  obtain sid sd where x: "x = (sid, sd)" by (cases x) auto
  show ?case
  proof (cases "on_bar_strategy w cache it bs table sid sd")
    case (Inl e)
    with Cons.prems x have "dd' = x # dd" by simp
    then show ?thesis by (simp add: latch_kept_refl)
  next
    case (Inr res)
    obtain sd1 t1 ev1 where res: "res = (sd1, t1, ev1)" by (cases res) auto
    obtain dd2 t2 ev2 err2 where
      rest: "on_bar_strategies w cache it bs t1 dd = (dd2, t2, ev2, err2)"
      by (cases "on_bar_strategies w cache it bs t1 dd") auto
    from Cons.prems x Inr res rest have dd': "dd' = (sid, sd1) # dd2" by simp
    have "latch_kept dd dd2" using rest by (rule Cons.IH)
    moreover have "itsTime sd \<longrightarrow> itsTime sd1"
      using on_bar_strategy_keeps_latch Inr res by blast
    ultimately show ?thesis unfolding dd' x by (simp add: latch_kept_def)
  qed
qed

lemma on_bar_item_latch:
  assumes "on_bar_item w cache it st = (st', ev, err)"
  shows "latch_kept (df_dict st) (df_dict st')"
proof (cases "upper (case key it of None \<Rightarrow> [] | Some k \<Rightarrow> k) = []")
  case True
  with assms have "st' = st" by (simp add: on_bar_item_def)
  then show ?thesis by (simp add: latch_kept_refl)
next
  case False
  let ?bs = "upper (case key it of None \<Rightarrow> [] | Some k \<Rightarrow> k)"
  obtain dd t e r where
    s: "on_bar_strategies w cache it ?bs (positions st) (df_dict st) = (dd, t, e, r)"
    by (cases "on_bar_strategies w cache it ?bs (positions st) (df_dict st)") auto
  with assms False have "df_dict st' = dd" by (auto simp: on_bar_item_def Let_def)
  with on_bar_strategies_latch [OF s] show ?thesis by simp
qed

lemma on_bar_latch:
  assumes "on_bar w cache content st = (st', ev, err)"
  shows "latch_kept (df_dict st) (df_dict st')"
  using assms
proof (induction content arbitrary: st st' ev err)
  case Nil
  then show ?case by (simp add: latch_kept_refl)
next
  case (Cons it content)
  obtain st1 ev1 err1 where i: "on_bar_item w cache it st = (st1, ev1, err1)"
    by (cases "on_bar_item w cache it st") auto
  have k1: "latch_kept (df_dict st) (df_dict st1)" using i by (rule on_bar_item_latch)
  show ?case
  proof (cases err1)
    case (Some e)
    with Cons.prems i have "st' = st1" by simp
    with k1 show ?thesis by simp
  next
    case None
    obtain st2 ev2 err2 where r: "on_bar w cache content st1 = (st2, ev2, err2)"
      by (cases "on_bar w cache content st1") auto
    with Cons.prems i None have "st' = st2" by simp
    with Cons.IH [OF r] k1 show ?thesis by (auto intro: latch_kept_trans)
  qed
qed

lemma handle_messages_latch:
  assumes "handle_messages w cache msgs st = (st', ev, err)"
  shows "latch_kept (df_dict st) (df_dict st')"
  using assms
proof (induction msgs arbitrary: st st' ev err)
  case Nil
  then show ?case by (simp add: latch_kept_refl)
next
  case (Cons msg msgs)
  obtain st1 ev1 err1 where i: "on_bar w cache msg st = (st1, ev1, err1)"
    by (cases "on_bar w cache msg st") auto
  have k1: "latch_kept (df_dict st) (df_dict st1)" using i by (rule on_bar_latch)
  show ?case
  proof (cases err1)
    case (Some e)
    with Cons.prems i have "st' = st1" by simp
    with k1 show ?thesis by simp
  next
    case None
    obtain st2 ev2 err2 where r: "handle_messages w cache msgs st1 = (st2, ev2, err2)"
      by (cases "handle_messages w cache msgs st1") auto
    with Cons.prems i None have "st' = st2" by simp
    with Cons.IH [OF r] k1 show ?thesis by (auto intro: latch_kept_trans)
  qed
qed

text \<open>
  C8, as the code has it. While the latch of an instance is unset, a bar of its symbol
  whose minute is not a multiple of the timeframe is dropped: the instance, its buffer
  included, stays as it was and nothing is aggregated, evaluated or logged. A bar of its
  symbol at a multiple of the timeframe sets the latch and is the first bar put into the
  buffer. A latch that is set stays set through every bar and every sequence of
  messages.
\<close>

theorem boundary_latch:
  "(symbol sd = bs \<and> \<not> itsTime sd \<and> time_frame sd \<noteq> 0
      \<and> bar_minute (CHART_TIME_MILLIS it) mod time_frame sd \<noteq> 0
      \<longrightarrow> on_bar_strategy w cache it bs table sid sd = Inr (sd, table, []))
   \<and> (symbol sd = bs \<and> \<not> itsTime sd \<and> time_frame sd \<noteq> 0
      \<and> bar_minute (CHART_TIME_MILLIS it) mod time_frame sd = 0
      \<longrightarrow> (\<exists>table' ev.
             on_bar_strategy w cache it bs table sid sd
               = Inr (sd\<lparr>itsTime := True, df := concat_bars (df sd) (new_bars it bs)\<rparr>,
                      table', ev)))
   \<and> (itsTime sd \<longrightarrow>
        (\<exists>sd' table' ev. on_bar_strategy w cache it bs table sid sd = Inr (sd', table', ev)
           \<and> itsTime sd'))
   \<and> (handle_messages w cache msgs st = (st', evs, err)
        \<longrightarrow> latch_kept (df_dict st) (df_dict st'))"
proof -
  have 1: "symbol sd = bs \<and> \<not> itsTime sd \<and> time_frame sd \<noteq> 0
      \<and> bar_minute (CHART_TIME_MILLIS it) mod time_frame sd \<noteq> 0
      \<longrightarrow> on_bar_strategy w cache it bs table sid sd = Inr (sd, table, [])"
    by (intro impI, elim conjE, rule on_bar_strategy_waiting)
  have 2: "symbol sd = bs \<and> \<not> itsTime sd \<and> time_frame sd \<noteq> 0
      \<and> bar_minute (CHART_TIME_MILLIS it) mod time_frame sd = 0
      \<longrightarrow> (\<exists>table' ev.
             on_bar_strategy w cache it bs table sid sd
               = Inr (sd\<lparr>itsTime := True, df := concat_bars (df sd) (new_bars it bs)\<rparr>,
                      table', ev))"
    by (intro impI, elim conjE, rule on_bar_strategy_boundary)
  have 3: "itsTime sd \<longrightarrow>
        (\<exists>sd' table' ev. on_bar_strategy w cache it bs table sid sd = Inr (sd', table', ev)
           \<and> itsTime sd')"
  proof
    assume l: "itsTime sd"
    show "\<exists>sd' table' ev. on_bar_strategy w cache it bs table sid sd = Inr (sd', table', ev)
           \<and> itsTime sd'"
    proof (cases "symbol sd = bs")
      case True
      from on_bar_strategy_latched [OF True l, of w cache it table sid] l
      show ?thesis by auto
    next
      case False
      with l show ?thesis by (simp add: on_bar_strategy_def)
    qed
  qed
  have 4: "handle_messages w cache msgs st = (st', evs, err)
        \<longrightarrow> latch_kept (df_dict st) (df_dict st')"
    by (intro impI, rule handle_messages_latch)
  from 1 2 3 4 show ?thesis by (intro conjI)
qed

theorem boundary_latch_witness:
  "on_bar_strategy broker_down Map.empty sample_item_off_boundary ''SPY'' [] 1 sample_strategy
     = Inr (sample_strategy, [], [])
   \<and> (\<exists>table' ev.
        on_bar_strategy broker_down Map.empty sample_item ''SPY'' [] 1 sample_strategy
          = Inr (sample_strategy
                   \<lparr>itsTime := True,
                    df := concat_bars (df sample_strategy) (new_bars sample_item ''SPY'')\<rparr>,
                 table', ev))
   \<and> (\<exists>sd' table' ev.
        on_bar_strategy broker_down Map.empty sample_item_off_boundary ''SPY'' [] 1
          (sample_strategy\<lparr>itsTime := True\<rparr>) = Inr (sd', table', ev)
        \<and> itsTime sd')
   \<and> latch_kept [(1, sample_strategy\<lparr>itsTime := True\<rparr>)]
       (df_dict (fst (handle_messages broker_down Map.empty
                        [[sample_item_off_boundary], [sample_item]]
                        \<lparr>df_dict = [(1, sample_strategy\<lparr>itsTime := True\<rparr>)],
                         positions = []\<rparr>)))"
proof -
  let ?st = "\<lparr>df_dict = [(1, sample_strategy\<lparr>itsTime := True\<rparr>)], positions = []\<rparr>"
  let ?msgs = "[[sample_item_off_boundary], [sample_item]]"
  have h1: "symbol sample_strategy = ''SPY'' \<and> \<not> itsTime sample_strategy
      \<and> time_frame sample_strategy \<noteq> 0
      \<and> bar_minute (CHART_TIME_MILLIS sample_item_off_boundary) mod time_frame sample_strategy
          \<noteq> 0"
    by code_simp
  have h2: "symbol sample_strategy = ''SPY'' \<and> \<not> itsTime sample_strategy
      \<and> time_frame sample_strategy \<noteq> 0
      \<and> bar_minute (CHART_TIME_MILLIS sample_item) mod time_frame sample_strategy = 0"
    by code_simp
  have h3: "itsTime (sample_strategy\<lparr>itsTime := True\<rparr>)" by simp
  obtain st' evs err where
    h4: "handle_messages broker_down Map.empty ?msgs ?st = (st', evs, err)"
    by (cases "handle_messages broker_down Map.empty ?msgs ?st") auto
  have a: "on_bar_strategy broker_down Map.empty sample_item_off_boundary ''SPY'' [] 1
             sample_strategy = Inr (sample_strategy, [], [])"
    by (rule boundary_latch [THEN conjunct1, THEN mp]) (rule h1)
  have b: "\<exists>table' ev.
        on_bar_strategy broker_down Map.empty sample_item ''SPY'' [] 1 sample_strategy
          = Inr (sample_strategy
                   \<lparr>itsTime := True,
                    df := concat_bars (df sample_strategy) (new_bars sample_item ''SPY'')\<rparr>,
                 table', ev)"
    by (rule boundary_latch [THEN conjunct2, THEN conjunct1, THEN mp]) (rule h2)
  have c: "\<exists>sd' table' ev.
        on_bar_strategy broker_down Map.empty sample_item_off_boundary ''SPY'' [] 1
          (sample_strategy\<lparr>itsTime := True\<rparr>) = Inr (sd', table', ev)
        \<and> itsTime sd'"
    by (rule boundary_latch [THEN conjunct2, THEN conjunct2, THEN conjunct1, THEN mp]) (rule h3)
  have "latch_kept (df_dict ?st) (df_dict st')"
    by (rule boundary_latch [THEN conjunct2, THEN conjunct2, THEN conjunct2, THEN mp]) (rule h4)
  then have d: "latch_kept [(1, sample_strategy\<lparr>itsTime := True\<rparr>)]
       (df_dict (fst (handle_messages broker_down Map.empty ?msgs ?st)))"
    using h4 by simp
  from a b c d show ?thesis by (intro conjI)
qed

theorem boundary_latch_counterexample:
  "symbol sample_strategy = ''SPY'' \<and> \<not> itsTime sample_strategy
   \<and> bar_minute (CHART_TIME_MILLIS sample_item_off_boundary) mod time_frame sample_strategy = 3
   \<and> on_bar_strategy broker_down Map.empty sample_item_off_boundary ''SPY'' [] 1 sample_strategy
       = Inr (sample_strategy, [], [])
   \<and> rows (df sample_strategy) = []"
  by code_simp

lemma get_orders_events:
  "get_orders w i = (r, ev) \<Longrightarrow> \<forall>e\<in>set ev. \<not> is_call e"
  by (auto simp: get_orders_def is_call_def split: http.splits if_splits body.splits)

lemma delete_orders_events:
  "delete_orders w i = (r, ev) \<Longrightarrow> \<forall>e\<in>set ev. \<not> is_call e"
  by (auto simp: delete_orders_def is_call_def split: http.splits if_splits)

lemma send_orders_events:
  "send_orders w q e p s i = Inr (r, ev) \<Longrightarrow> \<forall>e\<in>set ev. \<not> is_call e"
  by (auto simp: send_orders_def Let_def is_call_def
      split: http.splits if_splits option.splits)

lemma sell_loop_events:
  "sell_loop w p s ids = (ev, err) \<Longrightarrow> \<forall>e\<in>set ev. \<not> is_call e"
proof (induction ids arbitrary: ev err)
  case Nil
  then show ?case by simp
next
  case (Cons order_id ids)
  obtain ev' err' where rest: "sell_loop w p s ids = (ev', err')"
    by (cases "sell_loop w p s ids") auto
  have r: "\<forall>e\<in>set ev'. \<not> is_call e" using rest by (rule Cons.IH)
  obtain o_opt ev0 where g: "get_orders w order_id = (o_opt, ev0)"
    by (cases "get_orders w order_id") auto
  have g0: "\<forall>e\<in>set ev0. \<not> is_call e" using g by (rule get_orders_events)
  obtain ok ev1 where c: "delete_orders w order_id = (ok, ev1)"
    by (cases "delete_orders w order_id") auto
  have c0: "\<forall>e\<in>set ev1. \<not> is_call e" using c by (rule delete_orders_events)
  show ?case
  proof (cases o_opt)
    case None
    with Cons.prems g rest have "ev = ev0 @ ev'" by simp
    with g0 r show ?thesis by auto
  next
    case (Some d)
    let ?q = "case filledQuantity d of None \<Rightarrow> 0 | Some q \<Rightarrow> q"
    show ?thesis
    proof (cases "send_orders w ?q 1440 p s ''SELL''")
      case (Inl e)
      with Cons.prems g rest Some c
      have "ev = ev0 \<or> ev = ev0 @ ev' \<or> ev = ev0 @ ev1 @ ev'"
        by (auto simp: Let_def split: if_splits)
      with g0 r c0 show ?thesis by auto
    next
      case (Inr res)
      obtain r2 ev2 where res: "res = (r2, ev2)" by (cases res) auto
      have s0: "\<forall>e\<in>set ev2. \<not> is_call e"
        using Inr res send_orders_events by blast
      from Cons.prems g rest Some c Inr res
      have "ev = ev0 @ ev2 @ ev' \<or> ev = ev0 @ ev' \<or> ev = ev0 @ ev1 @ ev'"
        by (auto simp: Let_def split: if_splits)
      with g0 r c0 s0 show ?thesis by auto
    qed
  qed
qed

lemma send_strategy_orders_events:
  assumes "send_strategy_orders w table q e s sid p i = Inr (r, table', ev)"
  shows "\<forall>x\<in>set ev. \<not> is_call x"
proof (cases "upper i = ''BUY''")
  case True
  from assms obtain r0 ev0 where
    so: "send_orders w q e (round_price p) s ''BUY'' = Inr (r0, ev0)"
    and ev: "ev = ev0 \<or> ev = ev0 @ [Log INFO ''Sent buy order'']
             \<or> ev = ev0 @ [Log ERROR ''Error inserting order to DB'', Log INFO ''Sent buy order'']"
    unfolding buy_branch [OF True]
    by (auto split: sum.splits option.splits if_splits prod.splits)
  from send_orders_events [OF so] ev show ?thesis by (auto simp: is_call_def)
next
  case False
  with assms have s: "upper i = ''SELL''"
    by (auto simp: send_strategy_orders_def Let_def split: if_splits)
  show ?thesis
  proof (cases "get_order_id_list w table sid")
    case (Inl e)
    with assms show ?thesis unfolding sell_branch [OF s] by (auto simp: is_call_def)
  next
    case (Inr ids)
    obtain ev0 err where l: "sell_loop w (round_price p) s ids = (ev0, err)"
      by (cases "sell_loop w (round_price p) s ids") auto
    from assms Inr l
    have "ev = ev0 @ [Log INFO ''Sent sell order'']
          \<or> ev = ev0 @ [Log ERROR ''Error processing SELL for strategy'',
                        Log INFO ''Sent sell order'']"
      unfolding sell_branch [OF s] by (auto split: option.splits sum.splits)
    with sell_loop_events [OF l] show ?thesis by (auto simp: is_call_def)
  qed
qed

lemma send_strategy_orders_no_call:
  assumes "send_strategy_orders w table q e s sid p i = Inr (r, table', ev)"
    and "x \<in> set ev" and "is_call x"
  shows False
  using send_strategy_orders_events [OF assms(1)] assms(2,3) by blast

lemma strategy_cycle_events:
  assumes "strategy_cycle w cache table sid sd c = (table', ev)"
  shows "\<forall>e\<in>set ev. is_call e \<longrightarrow> e = Evaluate (name sd) c"
  using assms
  by (auto simp: strategy_cycle_def Let_def is_call_def
      split: option.splits sum.splits if_splits prod.splits event.splits
      dest: send_strategy_orders_no_call [unfolded is_call_def])

lemma strategy_cycle_evaluates:
  assumes "strategy_cycle w cache table sid sd c = (table', ev)" "cache (name sd) \<noteq> None"
  shows "Evaluate (name sd) c \<in> set ev"
  using assms
  by (auto simp: strategy_cycle_def Let_def
      split: option.splits sum.splits if_splits prod.splits)

lemma concat_bars_not_empty: "\<not> is_empty (concat_bars buf r)"
proof -
  have "sort_key fst (rows buf @ [r]) \<noteq> []"
    by (metis length_sort length_0_conv snoc_eq_iff_butlast)
  moreover have "columns buf @ filter (\<lambda>c. c \<notin> set (columns buf)) required_cols \<noteq> []"
    by (cases "columns buf") (simp_all add: required_cols_def)
  ultimately show ?thesis
    by (simp add: is_empty_def concat_bars_def sort_index_def)
qed

lemma process_bar_one_minute:
  assumes "time_frame sd = 1"
    and "process_bar w cache it bs table sid sd = (sd', table', ev)"
  shows "sd' = sd\<lparr>df := concat_bars (df sd) (new_bars it bs)\<rparr>
    \<and> (\<forall>e\<in>set ev. is_call e \<longrightarrow> e = Evaluate (name sd) (df sd'))
    \<and> (cache (name sd) \<noteq> None \<longrightarrow> Evaluate (name sd) (df sd') \<in> set ev)"
proof -
  let ?buffer = "concat_bars (df sd) (new_bars it bs)"
  let ?sd = "sd\<lparr>df := ?buffer\<rparr>"
  have st: "sd' = ?sd"
    using process_bar_state [of w cache it bs table sid sd] assms(2) by simp
  obtain t e where c: "strategy_cycle w cache table sid ?sd ?buffer = (t, e)"
    by (cases "strategy_cycle w cache table sid ?sd ?buffer") auto
  have ev: "ev = Log DEBUG ''[DATA UPDATE] Added bar'' # e"
    using assms c concat_bars_not_empty [of "df sd" "new_bars it bs"]
    by (simp add: process_bar_def Let_def its_time_def)
  have 1: "\<forall>x\<in>set e. is_call x \<longrightarrow> x = Evaluate (name ?sd) ?buffer"
    using c by (rule strategy_cycle_events)
  have 2: "cache (name ?sd) \<noteq> None \<longrightarrow> Evaluate (name ?sd) ?buffer \<in> set e"
    using c strategy_cycle_evaluates by blast
  from st ev 1 2 show ?thesis by (auto simp: is_call_def)
qed

text \<open>
  C10. For an instance with a timeframe of one minute the bar handler never calls
  \<open>aggregate_time_frame\<close>: the only call in the trace of a bar is the call of the
  strategy function, and its argument is the raw buffer with the bar appended. The
  strategy is called on every bar of its symbol, whatever the index, the columns or
  the length of the buffer are, so none of the checks of the aggregation applies.
\<close>

theorem one_minute_passes_raw_buffer:
  assumes "time_frame sd = 1"
    and "on_bar_strategy w cache it bs table sid sd = Inr (sd', table', ev)"
  shows "(\<forall>e\<in>set ev. is_call e \<longrightarrow> e = Evaluate (name sd) (df sd'))
    \<and> (\<forall>buf T. Aggregate buf T \<notin> set ev)
    \<and> (symbol sd = bs \<longrightarrow> df sd' = concat_bars (df sd) (new_bars it bs))
    \<and> (symbol sd = bs \<and> cache (name sd) \<noteq> None \<longrightarrow> Evaluate (name sd) (df sd') \<in> set ev)"
proof (cases "symbol sd = bs")
  case False
  with assms(2) show ?thesis by (simp add: on_bar_strategy_def)
next
  case True
  define sd0 where "sd0 = (if itsTime sd then sd else sd\<lparr>itsTime := True\<rparr>)"
  obtain s t e where p: "process_bar w cache it bs table sid sd0 = (s, t, e)"
    by (cases "process_bar w cache it bs table sid sd0") auto
  have tf: "time_frame sd0 = 1" using assms(1) by (simp add: sd0_def)
  have n: "name sd0 = name sd" by (simp add: sd0_def)
  have d0: "df sd0 = df sd" by (simp add: sd0_def)
  note pb = process_bar_one_minute [OF tf p]
  have s: "s = sd0\<lparr>df := concat_bars (df sd0) (new_bars it bs)\<rparr>"
    by (rule pb [THEN conjunct1])
  have c: "\<forall>x\<in>set e. is_call x \<longrightarrow> x = Evaluate (name sd0) (df s)"
    by (rule pb [THEN conjunct2, THEN conjunct1])
  have v: "cache (name sd0) \<noteq> None \<longrightarrow> Evaluate (name sd0) (df s) \<in> set e"
    by (rule pb [THEN conjunct2, THEN conjunct2])
  have r: "sd' = s \<and> (ev = e \<or> ev = Log DEBUG ''[TIMEFRAME] activating processing'' # e)"
    using assms True p
    by (auto simp: sd0_def on_bar_strategy_def check_its_time_def its_time_def split: if_splits)
  have d: "df s = concat_bars (df sd) (new_bars it bs)" using s d0 by simp
  have 1: "\<forall>x\<in>set ev. is_call x \<longrightarrow> x = Evaluate (name sd) (df sd')"
    using r c n by (auto simp: is_call_def)
  then have 2: "\<forall>buf T. Aggregate buf T \<notin> set ev"
    by (auto simp: is_call_def)
  have 3: "df sd' = concat_bars (df sd) (new_bars it bs)" using r d by simp
  have 4: "cache (name sd) \<noteq> None \<longrightarrow> Evaluate (name sd) (df sd') \<in> set ev"
    using r v n by auto
  from 1 2 3 4 show ?thesis by blast
qed

theorem one_minute_passes_raw_buffer_witness:
  "time_frame (sample_strategy\<lparr>time_frame := 1\<rparr>) = 1
   \<and> on_bar_strategy broker_down [''smaCross'' \<mapsto> hold_strategy] sample_item ''SPY'' [] 1
        (sample_strategy\<lparr>time_frame := 1\<rparr>)
       = Inr (sample_strategy
                \<lparr>time_frame := 1, itsTime := True,
                 df := concat_bars (df sample_strategy) (new_bars sample_item ''SPY'')\<rparr>,
              [],
              [Log DEBUG ''[TIMEFRAME] activating processing'',
               Log DEBUG ''[DATA UPDATE] Added bar'',
               Evaluate ''smaCross'' (concat_bars (df sample_strategy) (new_bars sample_item ''SPY'')),
               Log DEBUG ''Strategy completed''])
   \<and> Evaluate ''smaCross''
        (df (sample_strategy
               \<lparr>time_frame := 1, itsTime := True,
                df := concat_bars (df sample_strategy) (new_bars sample_item ''SPY'')\<rparr>))
       \<in> set [Log DEBUG ''[TIMEFRAME] activating processing'',
               Log DEBUG ''[DATA UPDATE] Added bar'',
               Evaluate ''smaCross'' (concat_bars (df sample_strategy) (new_bars sample_item ''SPY'')),
               Log DEBUG ''Strategy completed'']"
proof -
  let ?sd = "sample_strategy\<lparr>time_frame := 1\<rparr>"
  let ?sd' = "sample_strategy
                \<lparr>time_frame := 1, itsTime := True,
                 df := concat_bars (df sample_strategy) (new_bars sample_item ''SPY'')\<rparr>"
  let ?ev = "[Log DEBUG ''[TIMEFRAME] activating processing'',
               Log DEBUG ''[DATA UPDATE] Added bar'',
               Evaluate ''smaCross'' (concat_bars (df sample_strategy) (new_bars sample_item ''SPY'')),
               Log DEBUG ''Strategy completed'']"
  have t: "time_frame ?sd = 1" by simp
  have r: "on_bar_strategy broker_down [''smaCross'' \<mapsto> hold_strategy] sample_item ''SPY'' [] 1
             ?sd = Inr (?sd', [], ?ev)"
    by code_simp
  have h: "symbol ?sd = ''SPY'' \<and> [''smaCross'' \<mapsto> hold_strategy] (name ?sd) \<noteq> None"
    by (simp add: sample_strategy_def)
  have e: "Evaluate (name ?sd) (df ?sd') \<in> set ?ev"
    using one_minute_passes_raw_buffer [OF t r] h by blast
  have "name ?sd = ''smaCross''" by (simp add: sample_strategy_def)
  with e have e': "Evaluate ''smaCross'' (df ?sd') \<in> set ?ev" by simp
  from t r e' show ?thesis by (intro conjI)
qed

lemma import_strategy_unresolved:
  assumes "\<forall>f. import_module w (''tradeBot.strategies.'' @ nm) \<noteq> Module (Some f)"
    and "cache nm = None"
  shows "\<exists>m. import_strategy w cache nm =
           (False, cache,
            [Log INFO (''[IMPORT] Attempting to import '' @ ''tradeBot.strategies.'' @ nm),
             Log ERROR (''[IMPORT ERROR] '' @ m @ nm)])"
proof -
  have d: "nm \<notin> dom cache" using assms(2) by (simp add: dom_def)
  show ?thesis
  proof (cases "import_module w (''tradeBot.strategies.'' @ nm)")
    case ModuleNotFoundError
    with d show ?thesis
      by (intro exI [of _ "''module not found: ''"]) (simp add: import_strategy_def)
  next
    case ImportError
    with d show ?thesis
      by (intro exI [of _ "''failed to import: ''"]) (simp add: import_strategy_def)
  next
    case ImportException
    with d show ?thesis
      by (intro exI [of _ "''unexpected error: ''"]) (simp add: import_strategy_def)
  next
    case (Module x)
    with assms(1) have "x = None" by (cases x) auto
    with Module d show ?thesis
      by (intro exI [of _ "''no main function: ''"]) (simp add: import_strategy_def)
  qed
qed

lemma import_strategy_keeps_none:
  assumes "\<forall>f. import_module w (''tradeBot.strategies.'' @ nm) \<noteq> Module (Some f)"
    and "cache nm = None"
  shows "fst (snd (import_strategy w cache nm')) nm = None"
proof (cases "nm' = nm")
  case True
  with import_strategy_unresolved [of w nm cache] assms show ?thesis by auto
next
  case False
  with assms(2) show ?thesis
    by (simp add: import_strategy_def Let_def split: import_result.splits option.splits)
qed

lemma import_loop_unresolved:
  assumes "\<forall>f. import_module w (''tradeBot.strategies.'' @ nm) \<noteq> Module (Some f)"
    and "cache nm = None"
    and "import_loop w names cache s f = (cache', s', f', ev)"
  shows "cache' nm = None \<and> f \<le> f'
    \<and> (nm \<in> set names \<longrightarrow>
         f < f' \<and> (\<exists>m. Log ERROR (''[IMPORT ERROR] '' @ m @ nm) \<in> set ev))"
  using assms(2,3)
proof (induction names arbitrary: cache s f cache' s' f' ev)
  case Nil
  then show ?case by simp
next
  case (Cons n names)
  obtain ok c1 e1 where i: "import_strategy w cache n = (ok, c1, e1)"
    by (cases "import_strategy w cache n") auto
  have c1: "c1 nm = None"
    using import_strategy_keeps_none [of w nm cache n] assms(1) Cons.prems(1) i by simp
  let ?s = "if ok then s + 1 else s"
  let ?f = "if ok then f else f + 1"
  obtain c2 s2 f2 e2 where l: "import_loop w names c1 ?s ?f = (c2, s2, f2, e2)"
    by (cases "import_loop w names c1 ?s ?f") auto
  have r: "cache' = c2 \<and> f' = f2 \<and> ev = e1 @ e2"
    using Cons.prems(2) i l by (cases ok) simp_all
  note ih = Cons.IH [of c1 ?s ?f c2 s2 f2 e2, OF c1 l]
  have 1: "cache' nm = None" using ih r by simp
  have 2: "f \<le> f'" using ih r by (cases ok) simp_all
  have 3: "f < f' \<and> (\<exists>m. Log ERROR (''[IMPORT ERROR] '' @ m @ nm) \<in> set ev)"
    if m: "nm \<in> set (n # names)"
  proof (cases "n = nm")
    case True
    from import_strategy_unresolved [of w nm cache] assms(1) Cons.prems(1) i True
    obtain m where "ok = False" and "e1 = [Log INFO (''[IMPORT] Attempting to import '' @ ''tradeBot.strategies.'' @ nm),
             Log ERROR (''[IMPORT ERROR] '' @ m @ nm)]"
      by auto
    with ih r show ?thesis by auto
  next
    case False
    with m have "nm \<in> set names" by simp
    with ih have "?f < f2" and "\<exists>m. Log ERROR (''[IMPORT ERROR] '' @ m @ nm) \<in> set e2"
      by simp_all
    with r show ?thesis by (cases ok) auto
  qed
  from 1 2 3 show ?case by blast
qed

lemma import_all_strategies_unresolved:
  assumes "\<forall>f. import_module w (''tradeBot.strategies.'' @ nm) \<noteq> Module (Some f)"
    and "nm \<in> set (map info_name infos)"
    and "import_all_strategies w Map.empty infos = (cache, ev)"
  shows "cache nm = None
    \<and> (\<exists>m. Log ERROR (''[IMPORT ERROR] '' @ m @ nm) \<in> set ev)
    \<and> Log WARNING ''[STARTUP] strategies failed to import'' \<in> set ev"
proof -
  let ?names = "remdups (map info_name infos)"
  obtain c s f e where l: "import_loop w ?names Map.empty 0 0 = (c, s, f, e)"
    by (cases "import_loop w ?names Map.empty 0 0") auto
  have m: "nm \<in> set ?names" using assms(2) by simp
  have "Map.empty nm = None" by simp
  from import_loop_unresolved [of w nm Map.empty ?names 0 0 c s f e, OF assms(1) this l] m
  have c: "c nm = None" and f: "0 < f"
    and x: "\<exists>m. Log ERROR (''[IMPORT ERROR] '' @ m @ nm) \<in> set e"
    by simp_all
  have r: "cache = c" and
    e: "ev = [Log INFO ''[STARTUP] Importing strategy modules...''] @ e
            @ [Log INFO ''[STARTUP] Strategy import complete'']
            @ [Log WARNING ''[STARTUP] strategies failed to import'']"
    using assms(3) l f by (simp_all add: import_all_strategies_def Let_def)
  from x obtain m where "Log ERROR (''[IMPORT ERROR] '' @ m @ nm) \<in> set e" by blast
  then have "Log ERROR (''[IMPORT ERROR] '' @ m @ nm) \<in> set ev" unfolding e by simp
  then have 2: "\<exists>m. Log ERROR (''[IMPORT ERROR] '' @ m @ nm) \<in> set ev" by blast
  have 3: "Log WARNING ''[STARTUP] strategies failed to import'' \<in> set ev"
    unfolding e by simp
  from c r 2 3 show ?thesis by simp
qed

lemma strategy_cycle_not_cached:
  assumes "cache (name sd) = None"
  shows "strategy_cycle b cache table sid sd c =
           (table, [Log ERROR (''[STRATEGY ERROR] not found in cache: '' @ name sd)])"
  using assms by (simp add: strategy_cycle_def)

text \<open>
  C9. A configured strategy name whose module gives no \<open>main\<close> function is reported at
  startup, by an error line of the log that names it and by a warning, before the stream
  is entered. It does not stop the startup: when the stream client can be built, the
  stream is entered with the name missing from the cache, and every evaluation of an
  instance of that name then logs that the strategy is not in the cache and is skipped,
  without a call of the strategy and without an order.
\<close>

theorem unresolved_strategy_is_deferred:
  assumes "nm \<in> set (map info_name infos)"
    and "\<forall>f. import_module w (''tradeBot.strategies.'' @ nm) \<noteq> Module (Some f)"
  shows "(\<exists>m. Log ERROR (''[IMPORT ERROR] '' @ m @ nm) \<in> set (snd (run_stream_startup w infos)))
    \<and> Log WARNING ''[STARTUP] strategies failed to import''
        \<in> set (snd (run_stream_startup w infos))
    \<and> (client_ok w \<longrightarrow>
         (\<exists>dd cache. fst (run_stream_startup w infos) = Some (dd, cache)))
    \<and> (\<forall>dd cache b table sid sd c.
          fst (run_stream_startup w infos) = Some (dd, cache) \<and> name sd = nm \<longrightarrow>
          strategy_cycle b cache table sid sd c =
            (table, [Log ERROR (''[STRATEGY ERROR] not found in cache: '' @ nm)]))"
proof -
  obtain dd e1 where i: "initial_df w infos [] = (dd, e1)"
    by (cases "initial_df w infos []") auto
  obtain cache e2 where a: "import_all_strategies w Map.empty infos = (cache, e2)"
    by (cases "import_all_strategies w Map.empty infos") auto
  note u = import_all_strategies_unresolved [OF assms(2) assms(1) a]
  have c: "cache nm = None" by (rule u [THEN conjunct1])
  from u obtain m where m: "Log ERROR (''[IMPORT ERROR] '' @ m @ nm) \<in> set e2" by blast
  have wn: "Log WARNING ''[STARTUP] strategies failed to import'' \<in> set e2"
    by (rule u [THEN conjunct2, THEN conjunct2])
  have ev: "\<exists>e3. snd (run_stream_startup w infos) = e1 @ e2 @ e3"
    using i a by (simp add: run_stream_startup_def)
  have st: "fst (run_stream_startup w infos)
            = (if client_ok w then Some (dd, cache) else None)"
    using i a by (simp add: run_stream_startup_def)
  from ev m have 1:
    "\<exists>m. Log ERROR (''[IMPORT ERROR] '' @ m @ nm) \<in> set (snd (run_stream_startup w infos))"
    by auto
  from ev wn have 2:
    "Log WARNING ''[STARTUP] strategies failed to import''
       \<in> set (snd (run_stream_startup w infos))"
    by auto
  from st have 3:
    "client_ok w \<longrightarrow>
       (\<exists>dd cache. fst (run_stream_startup w infos) = Some (dd, cache))"
    by simp
  have 4: "\<forall>dd cache b table sid sd c.
          fst (run_stream_startup w infos) = Some (dd, cache) \<and> name sd = nm \<longrightarrow>
          strategy_cycle b cache table sid sd c =
            (table, [Log ERROR (''[STRATEGY ERROR] not found in cache: '' @ nm)])"
  proof (intro allI impI, elim conjE)
    fix dd cache' b table sid and sd :: strategy_data and c
    assume s: "fst (run_stream_startup w infos) = Some (dd, cache')"
      and n: "name sd = nm"
    from s st have "cache' = cache" by (cases "client_ok w") simp_all
    with c n have "cache' (name sd) = None" by simp
    with strategy_cycle_not_cached [of cache' sd b table sid c] n
    show "strategy_cycle b cache' table sid sd c =
            (table, [Log ERROR (''[STRATEGY ERROR] not found in cache: '' @ nm)])"
      by simp
  qed
  from 1 2 3 4 show ?thesis by (intro conjI)
qed

theorem unresolved_strategy_is_deferred_witness:
  "''ghost'' \<in> set (map info_name [ghost_info])
   \<and> import_module ghost_env (''tradeBot.strategies.'' @ ''ghost'') = ModuleNotFoundError
   \<and> client_ok ghost_env
   \<and> (\<exists>m. Log ERROR (''[IMPORT ERROR] '' @ m @ ''ghost'')
            \<in> set (snd (run_stream_startup ghost_env [ghost_info])))
   \<and> (\<exists>dd cache.
         fst (run_stream_startup ghost_env [ghost_info]) = Some (dd, cache)
         \<and> strategy_cycle broker_accepting cache [] 1 (sample_strategy\<lparr>name := ''ghost''\<rparr>)
               (df sample_strategy)
             = ([], [Log ERROR (''[STRATEGY ERROR] not found in cache: '' @ ''ghost'')]))"
proof -
  have h1: "''ghost'' \<in> set (map info_name [ghost_info])"
    by (simp add: ghost_info_def)
  have m: "import_module ghost_env (''tradeBot.strategies.'' @ ''ghost'') = ModuleNotFoundError"
    by (simp add: ghost_env_def)
  then have h2: "\<forall>f. import_module ghost_env (''tradeBot.strategies.'' @ ''ghost'')
                   \<noteq> Module (Some f)"
    by simp
  have k: "client_ok ghost_env" by (simp add: ghost_env_def)
  note t = unresolved_strategy_is_deferred [OF h1 h2]
  have 1: "\<exists>m. Log ERROR (''[IMPORT ERROR] '' @ m @ ''ghost'')
            \<in> set (snd (run_stream_startup ghost_env [ghost_info]))"
    by (rule t [THEN conjunct1])
  have "\<exists>dd cache. fst (run_stream_startup ghost_env [ghost_info]) = Some (dd, cache)"
    by (rule t [THEN conjunct2, THEN conjunct2, THEN conjunct1, THEN mp]) (rule k)
  then obtain dd cache
    where s: "fst (run_stream_startup ghost_env [ghost_info]) = Some (dd, cache)"
    by blast
  have n: "name (sample_strategy\<lparr>name := ''ghost''\<rparr>) = ''ghost''" by simp
  have "strategy_cycle broker_accepting cache [] 1 (sample_strategy\<lparr>name := ''ghost''\<rparr>)
               (df sample_strategy)
             = ([], [Log ERROR (''[STRATEGY ERROR] not found in cache: '' @ ''ghost'')])"
    using t [THEN conjunct2, THEN conjunct2, THEN conjunct2, rule_format,
             of dd cache "sample_strategy\<lparr>name := ''ghost''\<rparr>" broker_accepting "[]" 1
                "df sample_strategy"] s n
    by blast
  with s have 2: "\<exists>dd cache.
         fst (run_stream_startup ghost_env [ghost_info]) = Some (dd, cache)
         \<and> strategy_cycle broker_accepting cache [] 1 (sample_strategy\<lparr>name := ''ghost''\<rparr>)
               (df sample_strategy)
             = ([], [Log ERROR (''[STRATEGY ERROR] not found in cache: '' @ ''ghost'')])"
    by blast
  from h1 m k 1 2 show ?thesis by (intro conjI)
qed

theorem unresolved_strategy_is_deferred_counterexample:
  "(case run_stream_startup ghost_env [ghost_info] of
      (None, ev) \<Rightarrow> False
    | (Some (dd, cache), ev) \<Rightarrow>
        ev = [Log INFO ''[INIT] Loaded historical data'',
              Log INFO ''[INIT] Successfully loaded'',
              Log INFO ''[STARTUP] Importing strategy modules...'',
              Log INFO ''[IMPORT] Attempting to import tradeBot.strategies.ghost'',
              Log ERROR ''[IMPORT ERROR] module not found: ghost'',
              Log INFO ''[STARTUP] Strategy import complete'',
              Log WARNING ''[STARTUP] strategies failed to import'',
              Log INFO ''[STREAM INIT] Stream client initialized'']
        \<and> map fst dd = [1]
        \<and> map (name \<circ> snd) dd = [''ghost'']
        \<and> snd (handle_messages broker_accepting cache [[sample_item]]
                  \<lparr>df_dict = dd, positions = []\<rparr>)
           = ([Log DEBUG ''[TIMEFRAME] activating processing'',
               Log DEBUG ''[DATA UPDATE] Added bar'',
               Log ERROR ''[STRATEGY ERROR] not found in cache: ghost''], None))"
  by code_simp

end
